theory Spec2Isabelle
  imports Main "HOL-Library.Word"
begin

unbundle bit_operations_syntax

section \<open>The backplate bridge (nbp/main.c): data model\<close>

text \<open>
  The bridge sits between the backplate device session (\<open>struct nbp_device\<close>, nest.h) and
  two message-bus sockets. Everything the program does to the outside (log lines, messages
  sent to the device, messages sent on the sockets, binding, polling) is recorded, in
  program order, in a list of effects carried by the program state.
\<close>

type_synonym uint8_t = "8 word"
type_synonym uint16_t = "16 word"

text \<open>
  The two ways the process can end inside the modelled code: a failed \<open>assert\<close>, and a
  memory access that C leaves undefined (a NULL or indeterminate pointer, a write past an
  allocation).
\<close>

datatype error = Abort | Undefined_behaviour

text \<open>\<open>enum fabd_tristate\<close>: the answer of \<open>nbp_get_fet_asserted\<close>.\<close>

datatype fabd_tristate = FTS_FALSE | FTS_TRUE | FTS_UNKNOWN

text \<open>The message types main.c sends with \<open>nbp_send\<close>.\<close>

datatype nbp_message_type = NBPM_RESET | NBPM_REQ_PERIODIC

text \<open>The callback slot \<open>cb_msg_fet_presence\<close> holds NULL or \<open>reset_complete\<close>.\<close>

datatype fet_presence_cb = Reset_complete

record timespec =
  tv_sec :: int
  tv_nsec :: int

text \<open>
  The fields of \<open>struct nbp_device\<close> that main.c reads or writes. \<open>fet_asserted\<close> is what
  \<open>nbp_get_fet_asserted(nbp, i)\<close> answers for wire \<open>i\<close>.
\<close>

record nbp_device =
  cb_msg_fet_presence :: "fet_presence_cb option"
  has_weather :: bool
  temperature :: uint16_t
  humidity :: uint16_t
  has_powerinfo :: bool
  power_flags :: uint8_t
  vb_mV :: uint16_t
  fet_asserted :: "int \<Rightarrow> fabd_tristate"

text \<open>The protobuf messages (freeabode.pb-c.h). A NULL sub-message pointer is \<open>None\<close>.\<close>

record PbWeather =
  pb_has_temperature :: bool
  pb_temperature :: nat
  pb_has_humidity :: bool
  pb_humidity :: nat

record PbBattery =
  pb_has_charging :: bool
  pb_charging :: bool
  pb_has_voltage :: bool
  pb_voltage :: nat

record PbSetHVACWireRequest =
  wire :: int
  connect :: bool

record PbEvent =
  weather :: "PbWeather option"
  battery :: "PbBattery option"
  wire_change :: "PbSetHVACWireRequest list"

definition PB_EVENT__INIT :: PbEvent where
  "PB_EVENT__INIT = \<lparr>weather = None, battery = None, wire_change = []\<rparr>"

definition PB_WEATHER__INIT :: PbWeather where
  "PB_WEATHER__INIT =
     \<lparr>pb_has_temperature = False, pb_temperature = 0, pb_has_humidity = False, pb_humidity = 0\<rparr>"

definition PB_BATTERY__INIT :: PbBattery where
  "PB_BATTERY__INIT =
     \<lparr>pb_has_charging = False, pb_charging = False, pb_has_voltage = False, pb_voltage = 0\<rparr>"

text \<open>A decoded \<open>PbRequest\<close>: the items of \<open>sethvacwire\<close>, in order.\<close>

type_synonym PbRequest = "PbSetHVACWireRequest list"

datatype effect =
    Applog string
  | Nbp_send nbp_message_type "uint8_t list"
  | Zmq_publish PbEvent
  | Zmq_reply "bool list"
  | Zmq_bind string
  | Zmq_poll int

text \<open>
  The program state: the device session, the global \<open>ts_next_periodic_req\<close> and the
  effects so far.
\<close>

record world =
  nbp :: nbp_device
  ts_next_periodic_req :: timespec
  effects :: "effect list"

definition emit :: "effect \<Rightarrow> world \<Rightarrow> world" where
  "emit e w = w\<lparr>effects := effects w @ [e]\<rparr>"

section \<open>printf formatting\<close>

definition digit_char :: "nat \<Rightarrow> char" where
  "digit_char d = ''0123456789abcdef'' ! (d mod 16)"

function dec :: "nat \<Rightarrow> string" where
  "dec n = (if n < 10 then [digit_char n] else dec (n div 10) @ [digit_char (n mod 10)])"
  by pat_completeness auto
termination
  by (relation "measure (\<lambda>n. n)") auto

declare dec.simps [simp del]

function hex :: "nat \<Rightarrow> string" where
  "hex n = (if n < 16 then [digit_char n] else hex (n div 16) @ [digit_char (n mod 16)])"
  by pat_completeness auto
termination
  by (relation "measure (\<lambda>n. n)") auto

declare hex.simps [simp del]

text \<open>\<open>%Nd\<close> pads with spaces on the left, \<open>%0Nd\<close> with zeros; neither truncates.\<close>

definition pad :: "char \<Rightarrow> nat \<Rightarrow> string \<Rightarrow> string" where
  "pad c width s = replicate (width - length s) c @ s"

section \<open>Timers\<close>

definition periodic_req_interval :: int where
  "periodic_req_interval = 30"

text \<open>
  Modelled from the spec: \<open>timespec_add_ms\<close> (util.h, not among the sources) adds a
  number of milliseconds to a time, "now + fixed interval"; the result is normalised to
  \<open>0 \<le> tv_nsec < 10^9\<close>.
\<close>

definition timespec_ns :: "timespec \<Rightarrow> int" where
  "timespec_ns t = tv_sec t * 1000000000 + tv_nsec t"

definition timespec_add_ms :: "timespec \<Rightarrow> int \<Rightarrow> timespec" where
  "timespec_add_ms t ms =
     (let ns = timespec_ns t + ms * 1000000
      in \<lparr>tv_sec = ns div 1000000000, tv_nsec = ns mod 1000000000\<rparr>)"

text \<open>
  \<open>request_periodic\<close>: set the next deadline from \<open>now\<close>, then send the payload-less
  request. The result of \<open>nbp_send\<close> is ignored.
\<close>

definition request_periodic :: "timespec \<Rightarrow> world \<Rightarrow> world" where
  "request_periodic now w =
     emit (Nbp_send NBPM_REQ_PERIODIC [])
       (w\<lparr>ts_next_periodic_req := timespec_add_ms now (periodic_req_interval * 1000)\<rparr>)"

section \<open>Device callbacks\<close>

text \<open>
  \<open>reset_complete\<close>: clear the callback slot, log, request periodic data, bind the
  publisher. \<open>bind_ok\<close> is what \<open>fabdcfg_zmq_bind\<close> returns; the assertion aborts the
  process when it is false. The bind is the argument of an \<open>assert\<close>: the model is of a
  build with assertions enabled. The arguments \<open>now\<close> of the other callbacks and
  \<open>fet_bitmask\<close> are not used by the code and are left out.
\<close>

definition reset_complete :: "bool \<Rightarrow> timespec \<Rightarrow> world \<Rightarrow> error + world" where
  "reset_complete bind_ok now w =
     (let w1 = w\<lparr>nbp := (nbp w)\<lparr>cb_msg_fet_presence := None\<rparr>\<rparr>;
          w2 = emit (Applog ''Backplate reset complete'') w1;
          w3 = request_periodic now w2;
          w4 = emit (Zmq_bind ''events'') w3
      in if bind_ok then Inr w4 else Inl Abort)"

definition msg_log :: "string \<Rightarrow> world \<Rightarrow> world" where
  "msg_log msg w = emit (Applog (''Backplate: '' @ msg)) w"

text \<open>
  The log line of \<open>msg_weather\<close>. The arguments are unsigned 16-bit values promoted to
  \<open>int\<close>, so every quantity is non-negative and below \<open>2^31\<close>: C's division and
  remainder agree with \<open>div\<close> and \<open>mod\<close> on \<open>nat\<close>, and nothing overflows.
\<close>

definition weather_line :: "uint16_t \<Rightarrow> uint16_t \<Rightarrow> string" where
  "weather_line t h =
     (let fahrenheit = unat t * 90 div 5 + 32000
      in ''Temperature '' @ pad CHR '' '' 3 (dec (unat t div 100)) @ ''.''
         @ pad CHR ''0'' 2 (dec (unat t mod 100)) @ '' C (''
         @ pad CHR '' '' 4 (dec (fahrenheit div 1000)) @ ''.''
         @ pad CHR ''0'' 3 (dec (fahrenheit mod 1000)) @ '' F)    Humidity: ''
         @ dec (unat h div 10) @ ''.'' @ dec (unat h mod 10) @ ''%'')"

definition msg_weather :: "uint16_t \<Rightarrow> uint16_t \<Rightarrow> world \<Rightarrow> world" where
  "msg_weather t h w =
     (let w1 = emit (Applog (weather_line t h)) w;
          pbe = PB_EVENT__INIT;
          pb = PB_WEATHER__INIT;
          pb = pb\<lparr>pb_has_temperature := True\<rparr>;
          pb = pb\<lparr>pb_temperature := unat t\<rparr>;
          pb = pb\<lparr>pb_has_humidity := True\<rparr>;
          pb = pb\<lparr>pb_humidity := unat h\<rparr>;
          pbe = pbe\<lparr>weather := Some pb\<rparr>
      in emit (Zmq_publish pbe) w1)"

definition power_line :: "uint8_t \<Rightarrow> uint16_t \<Rightarrow> uint16_t \<Rightarrow> uint16_t \<Rightarrow> string" where
  "power_line flags vi_cV vo_mV vb =
     ''power status: flags '' @ pad CHR ''0'' 2 (hex (unat flags))
     @ '', vi '' @ dec (unat vi_cV div 100) @ ''.'' @ pad CHR ''0'' 2 (dec (unat vi_cV mod 100))
     @ ''V, vo '' @ dec (unat vo_mV div 1000) @ ''.'' @ pad CHR ''0'' 3 (dec (unat vo_mV mod 1000))
     @ ''V; vb '' @ dec (unat vb div 1000) @ ''.'' @ pad CHR ''0'' 3 (dec (unat vb mod 1000))
     @ ''V''"

text \<open>
  \<open>msg_power_status\<close>: of its eleven arguments only \<open>flags\<close>, \<open>vi_cV\<close>, \<open>vo_mV\<close> and
  \<open>vb_mV\<close> are used.
\<close>

definition msg_power_status ::
  "uint8_t \<Rightarrow> uint16_t \<Rightarrow> uint16_t \<Rightarrow> uint16_t \<Rightarrow> world \<Rightarrow> world" where
  "msg_power_status flags vi_cV vo_mV vb w =
     (let w1 = emit (Applog (power_line flags vi_cV vo_mV vb)) w;
          pbevent = PB_EVENT__INIT;
          pbbattery = PB_BATTERY__INIT;
          pbbattery = pbbattery\<lparr>pb_has_charging := True\<rparr>;
          pbbattery = pbbattery\<lparr>pb_charging := (flags AND 0x40 = 0)\<rparr>;
          pbbattery = pbbattery\<lparr>pb_has_voltage := True\<rparr>;
          pbbattery = pbbattery\<lparr>pb_voltage := unat vb\<rparr>;
          pbevent = pbevent\<lparr>battery := Some pbbattery\<rparr>
      in emit (Zmq_publish pbevent) w1)"

text \<open>
  \<open>my_nbp_control_fet_cb\<close>: an event with a one-element wire-change list. The log line
  prints \<open>(unsigned)fet\<close>, the wire id modulo \<open>2^32\<close>.
\<close>

definition my_nbp_control_fet_cb :: "int \<Rightarrow> bool \<Rightarrow> world \<Rightarrow> world" where
  "my_nbp_control_fet_cb fet conn w =
     (let w1 = emit (Applog (''Setting FET '' @ dec (nat (fet mod 2 ^ 32)) @ '' to ''
                               @ (if conn then ''1'' else ''0''))) w;
          pbwire = \<lparr>wire = fet, connect = conn\<rparr>;
          pbevent = PB_EVENT__INIT\<lparr>wire_change := [pbwire]\<rparr>
      in emit (Zmq_publish pbevent) w1)"

section \<open>Control request handler\<close>

text \<open>
  \<open>nbp_control_fet\<close> is the device session's set-wire operation (nest.h); it is a parameter
  of the model: it answers success or failure and may change the program state (for
  instance by calling \<open>my_nbp_control_fet_cb\<close>).
\<close>

type_synonym control_fet = "world \<Rightarrow> int \<Rightarrow> bool \<Rightarrow> bool \<times> world"

text \<open>
  The loop of \<open>handle_req\<close> at index \<open>i\<close>. The reply array comes from \<open>malloc\<close>: a cell is
  \<open>None\<close> until it is written.
\<close>

function handle_req_loop ::
  "control_fet \<Rightarrow> PbRequest \<Rightarrow> nat \<Rightarrow> bool option list \<Rightarrow> world
     \<Rightarrow> error + (bool option list \<times> world)" where
  "handle_req_loop cf req i reply w =
     (if i < length req then
        (case cf w (wire (req ! i)) (connect (req ! i)) of
           (r, w') \<Rightarrow>
             if i < length reply then handle_req_loop cf req (i + 1) (reply[i := Some r]) w'
             else Inl Undefined_behaviour)
      else Inr (reply, w))"
  by pat_completeness auto
termination
  by (relation "measure (\<lambda>(cf, req, i, reply, w). length req - i)") auto

declare handle_req_loop.simps [simp del]

text \<open>
  \<open>handle_req\<close>. \<open>recv\<close> is the request as \<open>zmq_recv_protobuf\<close> leaves it in \<open>req\<close>:
  \<open>None\<close> is the NULL of a message that does not decode, which the code dereferences.
\<close>

definition handle_req :: "control_fet \<Rightarrow> PbRequest option \<Rightarrow> world \<Rightarrow> error + world" where
  "handle_req cf recv w =
     (case recv of
        None \<Rightarrow> Inl Undefined_behaviour
      | Some req \<Rightarrow>
          (case handle_req_loop cf req 0 (replicate (length req) None) w of
             Inl e \<Rightarrow> Inl e
           | Inr (reply, w') \<Rightarrow>
               (case those reply of
                  None \<Rightarrow> Inl Undefined_behaviour
                | Some bs \<Rightarrow> Inr (emit (Zmq_reply bs) w'))))"

text \<open>
  The contract of \<open>handle_req\<close> in the spec's words: apply the set-wire operation to each
  item in request order, collecting the results.
\<close>

fun set_wires :: "control_fet \<Rightarrow> PbRequest \<Rightarrow> world \<Rightarrow> bool list \<times> world" where
  "set_wires cf [] w = ([], w)"
| "set_wires cf (x # xs) w =
     (case cf w (wire x) (connect x) of
        (r, w') \<Rightarrow> (case set_wires cf xs w' of (rs, w'') \<Rightarrow> (r # rs, w'')))"

section \<open>Snapshot builder\<close>

text \<open>
  Modelled from the spec: \<open>nbp_get_fet_asserted\<close> (nest.h) is the device session's
  tri-state wire-assertion query, and a known state is the boolean \<open>true\<close> or \<open>false\<close>.
\<close>

definition nbp_get_fet_asserted :: "nbp_device \<Rightarrow> int \<Rightarrow> fabd_tristate" where
  "nbp_get_fet_asserted dev i = fet_asserted dev i"

definition tristate_bool :: "fabd_tristate \<Rightarrow> bool" where
  "tristate_bool a = (a = FTS_TRUE)"

text \<open>
  The memory of the wire loop of \<open>got_new_subscriber\<close>: the entry array \<open>pbwire_top\<close> with
  the offset of the cursor \<open>pbwire\<close> in it, and the pointer array \<open>pbevent.wire_change\<close>
  (a pointer is an index into the entry array) with \<open>n_wire_change\<close>. Cells are \<open>None\<close>
  until written. \<open>fet_queries\<close> lists the wire ids passed to \<open>nbp_get_fet_asserted\<close>.
\<close>

record wire_bufs =
  pbwire_top :: "PbSetHVACWireRequest option list"
  pbwire :: nat
  wire_change_ptrs :: "nat option list"
  n_wire_change :: nat
  fet_queries :: "int list"

text \<open>The loop at index \<open>i\<close>; \<open>cnt\<close> is \<open>PB_HVACWIRES___COUNT\<close> (freeabode.pb-c.h).\<close>

function snapshot_wires :: "nat \<Rightarrow> nbp_device \<Rightarrow> int \<Rightarrow> wire_bufs \<Rightarrow> error + wire_bufs" where
  "snapshot_wires cnt dev i b =
     (if i < int cnt then
        (let asserted = nbp_get_fet_asserted dev i;
             b1 = b\<lparr>fet_queries := fet_queries b @ [i]\<rparr>
         in if asserted = FTS_UNKNOWN then snapshot_wires cnt dev (i + 1) b1
            else if pbwire b1 < length (pbwire_top b1)
                    \<and> n_wire_change b1 < length (wire_change_ptrs b1)
            then snapshot_wires cnt dev (i + 1)
                   (b1\<lparr>pbwire_top :=
                          (pbwire_top b1)[pbwire b1 :=
                             Some \<lparr>wire = i, connect = tristate_bool asserted\<rparr>],
                        wire_change_ptrs :=
                          (wire_change_ptrs b1)[n_wire_change b1 := Some (pbwire b1)],
                        n_wire_change := n_wire_change b1 + 1,
                        pbwire := pbwire b1 + 1\<rparr>)
            else Inl Undefined_behaviour)
      else Inr b)"
  by pat_completeness auto
termination
  by (relation "measure (\<lambda>(cnt, dev, i, b). nat (int cnt - i))") auto

declare snapshot_wires.simps [simp del]

text \<open>What the serialiser reads: the first \<open>n_wire_change\<close> pointers, dereferenced.\<close>

definition deref_wire :: "wire_bufs \<Rightarrow> nat option \<Rightarrow> PbSetHVACWireRequest option" where
  "deref_wire b p =
     (case p of
        None \<Rightarrow> None
      | Some a \<Rightarrow> if a < length (pbwire_top b) then pbwire_top b ! a else None)"

definition wire_change_list :: "wire_bufs \<Rightarrow> PbSetHVACWireRequest list option" where
  "wire_change_list b =
     (if n_wire_change b \<le> length (wire_change_ptrs b)
      then those (map (deref_wire b) (take (n_wire_change b) (wire_change_ptrs b)))
      else None)"

definition malloc_wire_bufs :: "nat \<Rightarrow> wire_bufs" where
  "malloc_wire_bufs cnt =
     \<lparr>pbwire_top = replicate cnt None, pbwire = 0,
      wire_change_ptrs = replicate cnt None, n_wire_change = 0, fet_queries = []\<rparr>"

definition snapshot_weather :: "nbp_device \<Rightarrow> PbEvent \<Rightarrow> PbEvent" where
  "snapshot_weather dev pbevent =
     (if has_weather dev then
        (let pbweather = PB_WEATHER__INIT;
             pbweather = pbweather\<lparr>pb_has_temperature := True\<rparr>;
             pbweather = pbweather\<lparr>pb_temperature := unat (temperature dev)\<rparr>;
             pbweather = pbweather\<lparr>pb_has_humidity := True\<rparr>;
             pbweather = pbweather\<lparr>pb_humidity := unat (humidity dev)\<rparr>
         in pbevent\<lparr>weather := Some pbweather\<rparr>)
      else pbevent)"

definition snapshot_battery :: "nbp_device \<Rightarrow> PbEvent \<Rightarrow> PbEvent" where
  "snapshot_battery dev pbevent =
     (if has_powerinfo dev then
        (let pbbattery = PB_BATTERY__INIT;
             pbbattery = pbbattery\<lparr>pb_has_charging := True\<rparr>;
             pbbattery = pbbattery\<lparr>pb_charging := (power_flags dev AND 0x40 = 0)\<rparr>;
             pbbattery = pbbattery\<lparr>pb_has_voltage := True\<rparr>;
             pbbattery = pbbattery\<lparr>pb_voltage := unat (vb_mV dev)\<rparr>
         in pbevent\<lparr>battery := Some pbbattery\<rparr>)
      else pbevent)"

text \<open>
  \<open>got_new_subscriber\<close>. \<open>recv\<close> is the message received on the publisher socket;
  \<open>None\<close> when \<open>zmq_msg_init\<close> or \<open>zmq_msg_recv\<close> fails, which an assertion turns into an
  abort.
\<close>

definition got_new_subscriber :: "nat \<Rightarrow> uint8_t list option \<Rightarrow> world \<Rightarrow> error + world" where
  "got_new_subscriber cnt recv w =
     (case recv of
        None \<Rightarrow> Inl Abort
      | Some data \<Rightarrow>
          if length data < 1 then Inr w
          else if data ! 0 = 0 then Inr w
          else
            (let pbevent = PB_EVENT__INIT;
                 pbevent = snapshot_weather (nbp w) pbevent;
                 pbevent = snapshot_battery (nbp w) pbevent
             in case snapshot_wires cnt (nbp w) 0 (malloc_wire_bufs cnt) of
                  Inl e \<Rightarrow> Inl e
                | Inr b \<Rightarrow>
                    (case wire_change_list b of
                       None \<Rightarrow> Inl Undefined_behaviour
                     | Some ws \<Rightarrow> Inr (emit (Zmq_publish (pbevent\<lparr>wire_change := ws\<rparr>)) w))))"

section \<open>Bridge loop\<close>

text \<open>
  The helpers of util.h that the loop calls are parameters: the value \<open>timespec_clear\<close>
  stores, \<open>timespec_passed\<close> (its answer and the timeout it leaves in its third argument)
  and \<open>timespec_to_timeout_ms\<close>; so are the set-wire operation and the wire count.
\<close>

record externals =
  nbp_control_fet :: control_fet
  timespec_clear :: timespec
  timespec_passed :: "timespec \<Rightarrow> timespec \<Rightarrow> timespec \<Rightarrow> bool \<times> timespec"
  timespec_to_timeout_ms :: "timespec \<Rightarrow> timespec \<Rightarrow> int"
  PB_HVACWIRES_COUNT :: nat

text \<open>
  What the environment supplies in one iteration: the clock, the return value of
  \<open>zmq_poll\<close> and the \<open>ZMQ_POLLIN\<close> bit of each poll item, what \<open>nbp_read\<close> does with the
  bytes on the device link (it parses them and runs callbacks), and the messages
  waiting on the two sockets.
\<close>

record poll_input =
  clock_now :: timespec
  poll_rc :: int
  revents_nbp :: bool
  revents_ctl :: bool
  revents_pub :: bool
  nbp_read :: "world \<Rightarrow> error + world"
  ctl_recv :: "PbRequest option"
  pub_recv :: "uint8_t list option"

text \<open>The iteration up to the call of \<open>zmq_poll\<close>: the state and \<open>ts_timeout\<close>.\<close>

definition loop_head :: "externals \<Rightarrow> timespec \<Rightarrow> world \<Rightarrow> world \<times> timespec" where
  "loop_head ext ts_now w =
     (let ts_timeout = timespec_clear ext
      in case timespec_passed ext (ts_next_periodic_req w) ts_now ts_timeout of
           (passed, ts_timeout) \<Rightarrow>
             ((if passed then request_periodic ts_now w else w), ts_timeout))"

definition loop_dispatch :: "externals \<Rightarrow> poll_input \<Rightarrow> world \<Rightarrow> error + world" where
  "loop_dispatch ext inp w =
     (case (if revents_nbp inp then nbp_read inp w else Inr w) of
        Inl e \<Rightarrow> Inl e
      | Inr w1 \<Rightarrow>
          (case (if revents_ctl inp then handle_req (nbp_control_fet ext) (ctl_recv inp) w1
                 else Inr w1) of
             Inl e \<Rightarrow> Inl e
           | Inr w2 \<Rightarrow>
               if revents_pub inp
               then got_new_subscriber (PB_HVACWIRES_COUNT ext) (pub_recv inp) w2
               else Inr w2))"

definition loop_iter :: "externals \<Rightarrow> poll_input \<Rightarrow> world \<Rightarrow> error + world" where
  "loop_iter ext inp w =
     (let ts_now = clock_now inp
      in case loop_head ext ts_now w of
           (w1, ts_timeout) \<Rightarrow>
             (let w2 = emit (Zmq_poll (timespec_to_timeout_ms ext ts_now ts_timeout)) w1
              in if poll_rc inp \<le> 0 then Inr w2 else loop_dispatch ext inp w2))"

text \<open>
  \<open>while (true)\<close> run on a finite prefix of what the environment supplies; the loop
  itself never ends, only an abort does.
\<close>

fun main_loop :: "externals \<Rightarrow> poll_input list \<Rightarrow> world \<Rightarrow> error + world" where
  "main_loop ext [] w = Inr w"
| "main_loop ext (inp # inps) w =
     (case loop_iter ext inp w of Inl e \<Rightarrow> Inl e | Inr w' \<Rightarrow> main_loop ext inps w')"

text \<open>
  The start of \<open>main\<close> up to the loop. \<open>opened\<close> is the device \<open>nbp_open\<close> returns (or
  NULL), \<open>reset_sent\<close> the result of sending \<open>NBPM_RESET\<close>, \<open>ctl_bound\<close> the result of
  binding the control socket; each is asserted. The publisher socket is created but
  not bound.
\<close>

definition main_init :: "externals \<Rightarrow> nbp_device option \<Rightarrow> bool \<Rightarrow> bool \<Rightarrow> error + world" where
  "main_init ext opened reset_sent ctl_bound =
     (case opened of
        None \<Rightarrow> Inl Abort
      | Some dev \<Rightarrow>
          if \<not> reset_sent then Inl Abort
          else if \<not> ctl_bound then Inl Abort
          else Inr \<lparr>nbp = dev\<lparr>cb_msg_fet_presence := Some Reset_complete\<rparr>,
                    ts_next_periodic_req = timespec_clear ext,
                    effects = [Nbp_send NBPM_RESET [], Zmq_bind ''control'']\<rparr>)"

section \<open>The device session's dispatch\<close>

text \<open>
  Modelled from the spec: the device session (nest.c, not among the sources) "invokes
  registered callbacks when framed messages of known types arrive"; a reset-complete
  message reaches the handler in the slot \<open>cb_msg_fet_presence\<close>, and none when the slot
  is empty.
\<close>

definition nbp_deliver_fet_presence :: "bool \<Rightarrow> timespec \<Rightarrow> world \<Rightarrow> error + world" where
  "nbp_deliver_fet_presence bind_ok now w =
     (case cb_msg_fet_presence (nbp w) of
        None \<Rightarrow> Inr w
      | Some Reset_complete \<Rightarrow> reset_complete bind_ok now w)"

fun nbp_deliver_fet_presences :: "(bool \<times> timespec) list \<Rightarrow> world \<Rightarrow> error + world" where
  "nbp_deliver_fet_presences [] w = Inr w"
| "nbp_deliver_fet_presences ((bind_ok, now) # ds) w =
     (case nbp_deliver_fet_presence bind_ok now w of
        Inl e \<Rightarrow> Inl e
      | Inr w' \<Rightarrow> nbp_deliver_fet_presences ds w')"

text \<open>
  Modelled from the spec: a weather message "updates DeviceState" with the reading
  ("fields marked has_X are set together with X") and reaches the weather callback.
  The store is the device session's; the callback is \<open>msg_weather\<close> of main.c.
\<close>

definition nbp_store_weather :: "uint16_t \<Rightarrow> uint16_t \<Rightarrow> world \<Rightarrow> world" where
  "nbp_store_weather t h w =
     w\<lparr>nbp := (nbp w)\<lparr>has_weather := True, temperature := t, humidity := h\<rparr>\<rparr>"

definition nbp_deliver_weather :: "uint16_t \<times> uint16_t \<Rightarrow> world \<Rightarrow> world" where
  "nbp_deliver_weather th w = msg_weather (fst th) (snd th) (nbp_store_weather (fst th) (snd th) w)"

section \<open>Specification-level descriptions and sample inputs\<close>

text \<open>
  The wire-change list in the spec's words: one entry per wire id from \<open>i\<close> up to
  \<open>PB_HVACWIRES___COUNT - 1\<close> whose asserted state is not unknown, in ascending order.
\<close>

definition wires_from :: "int \<Rightarrow> nat \<Rightarrow> nbp_device \<Rightarrow> PbSetHVACWireRequest list" where
  "wires_from i cnt dev =
     map (\<lambda>j. \<lparr>wire = j, connect = tristate_bool (nbp_get_fet_asserted dev j)\<rparr>)
       (filter (\<lambda>j. nbp_get_fet_asserted dev j \<noteq> FTS_UNKNOWN) [i..int cnt - 1])"

definition snapshot_event :: "nat \<Rightarrow> nbp_device \<Rightarrow> PbEvent" where
  "snapshot_event cnt dev =
     (snapshot_battery dev (snapshot_weather dev PB_EVENT__INIT))
       \<lparr>wire_change := wires_from 0 cnt dev\<rparr>"

text \<open>A device session that has no data yet, and the program state around it.\<close>

definition no_data_device :: nbp_device where
  "no_data_device =
     \<lparr>cb_msg_fet_presence = None, has_weather = False, temperature = 0, humidity = 0,
      has_powerinfo = False, power_flags = 0, vb_mV = 0,
      fet_asserted = (\<lambda>i. FTS_UNKNOWN)\<rparr>"

definition no_data_world :: world where
  "no_data_world =
     \<lparr>nbp = no_data_device, ts_next_periodic_req = \<lparr>tv_sec = 0, tv_nsec = 0\<rparr>, effects = []\<rparr>"

text \<open>A device with wire 0 asserted, wire 2 not asserted and every other wire unknown.\<close>

definition two_wire_device :: nbp_device where
  "two_wire_device =
     no_data_device\<lparr>fet_asserted :=
        (\<lambda>i. if i = 0 then FTS_TRUE else if i = 2 then FTS_FALSE else FTS_UNKNOWN)\<rparr>"

text \<open>A set-wire operation that logs each call and fails on wire 5 only.\<close>

definition fails_on_5 :: control_fet where
  "fails_on_5 w fet conn = (fet \<noteq> 5, my_nbp_control_fet_cb fet conn w)"

text \<open>
  Helpers of util.h for sample runs: a deadline has passed when it is set (not zero) and
  not after now.
\<close>

definition sample_externals :: externals where
  "sample_externals =
     \<lparr>nbp_control_fet = fails_on_5,
      timespec_clear = \<lparr>tv_sec = 0, tv_nsec = 0\<rparr>,
      timespec_passed =
        (\<lambda>cutoff now tmo. (timespec_ns cutoff \<noteq> 0 \<and> timespec_ns cutoff \<le> timespec_ns now, tmo)),
      timespec_to_timeout_ms = (\<lambda>now tmo. 0),
      PB_HVACWIRES_COUNT = 3\<rparr>"

definition sample_input :: poll_input where
  "sample_input =
     \<lparr>clock_now = \<lparr>tv_sec = 100, tv_nsec = 0\<rparr>, poll_rc = 0,
      revents_nbp = True, revents_ctl = True, revents_pub = True,
      nbp_read = (\<lambda>w. Inl Abort), ctl_recv = None, pub_recv = None\<rparr>"

text \<open>A device that has a power reading with bit 6 of the flags set.\<close>

definition powered_world :: world where
  "powered_world =
     no_data_world\<lparr>nbp := no_data_device\<lparr>has_powerinfo := True, power_flags := 0x40,
                                          vb_mV := 3900\<rparr>\<rparr>"

text \<open>The program state \<open>main\<close> enters its loop with, on a device without data.\<close>

definition started_world :: world where
  "started_world =
     \<lparr>nbp = no_data_device\<lparr>cb_msg_fet_presence := Some Reset_complete\<rparr>,
      ts_next_periodic_req = \<lparr>tv_sec = 0, tv_nsec = 0\<rparr>,
      effects = [Nbp_send NBPM_RESET [], Zmq_bind ''control'']\<rparr>"

text \<open>A state whose next deadline is at 130 seconds.\<close>

definition refreshed_world :: world where
  "refreshed_world = no_data_world\<lparr>ts_next_periodic_req := \<lparr>tv_sec = 130, tv_nsec = 0\<rparr>\<rparr>"

text \<open>A request with three items, the second for wire 5.\<close>

definition sample_request :: PbRequest where
  "sample_request = [\<lparr>wire = 2, connect = True\<rparr>, \<lparr>wire = 5, connect = False\<rparr>,
                     \<lparr>wire = 1, connect = True\<rparr>]"

text \<open>
  An iteration at 100 seconds in which only the device link is ready and \<open>nbp_read\<close>
  delivers the reset-complete message.
\<close>

definition reset_input :: poll_input where
  "reset_input =
     \<lparr>clock_now = \<lparr>tv_sec = 100, tv_nsec = 0\<rparr>, poll_rc = 1,
      revents_nbp = True, revents_ctl = False, revents_pub = False,
      nbp_read = nbp_deliver_fet_presence True \<lparr>tv_sec = 100, tv_nsec = 0\<rparr>,
      ctl_recv = None, pub_recv = None\<rparr>"

section \<open>Properties\<close>

lemma wires_from_done: "\<not> i < int cnt \<Longrightarrow> wires_from i cnt dev = []"
  by (simp add: wires_from_def)

lemma wires_from_step:
  "i < int cnt \<Longrightarrow> wires_from i cnt dev =
     (if nbp_get_fet_asserted dev i = FTS_UNKNOWN then wires_from (i + 1) cnt dev
      else \<lparr>wire = i, connect = tristate_bool (nbp_get_fet_asserted dev i)\<rparr> # wires_from (i + 1) cnt dev)"
  by (simp add: wires_from_def upto_rec1)

lemma length_wires_from: "0 \<le> i \<Longrightarrow> nat i + length (wires_from i cnt dev) \<le> max (nat i) cnt"
proof (induction "nat (int cnt - i)" arbitrary: i)
  case 0
  then show ?case by (simp add: wires_from_done)
next
  case (Suc k)
  then have lt: "i < int cnt" by linarith
  have "k = nat (int cnt - (i + 1))" using Suc.hyps(2) by linarith
  from Suc.hyps(1) [OF this] Suc.prems
  have "nat (i + 1) + length (wires_from (i + 1) cnt dev) \<le> max (nat (i + 1)) cnt" by simp
  then show ?case using lt Suc.prems by (simp add: wires_from_step nat_add_distrib)
qed

lemma take_Suc_update:
  "n < length xs \<Longrightarrow> take (Suc n) (xs[n := v]) = take n xs @ [v]"
  by (simp add: take_Suc_conv_app_nth)

lemma snapshot_wires_run:
  assumes "0 \<le> i" "i \<le> int cnt"
    and "length (pbwire_top b) = cnt" "length (wire_change_ptrs b) = cnt"
    and "pbwire b = n_wire_change b" "n_wire_change b \<le> nat i"
  shows "\<exists>b'. snapshot_wires cnt dev i b = Inr b'
           \<and> length (pbwire_top b') = cnt \<and> length (wire_change_ptrs b') = cnt
           \<and> pbwire b' = n_wire_change b'
           \<and> n_wire_change b' = n_wire_change b + length (wires_from i cnt dev)
           \<and> take (n_wire_change b') (pbwire_top b')
               = take (n_wire_change b) (pbwire_top b) @ map Some (wires_from i cnt dev)
           \<and> take (n_wire_change b') (wire_change_ptrs b')
               = take (n_wire_change b) (wire_change_ptrs b)
                 @ map Some [n_wire_change b ..< n_wire_change b']
           \<and> fet_queries b' = fet_queries b @ [i..int cnt - 1]"
  using assms
proof (induction "nat (int cnt - i)" arbitrary: i b)
  case 0
  then have "\<not> i < int cnt" by simp
  with "0.prems" show ?case
    by (subst snapshot_wires.simps) (simp add: wires_from_done)
next
  case (Suc k)
  then have lt: "i < int cnt" by linarith
  have k: "k = nat (int cnt - (i + 1))" using Suc.hyps(2) by linarith
  have upto: "[i..int cnt - 1] = i # [i + 1..int cnt - 1]" using lt by (simp add: upto_rec1)
  let ?b1 = "b\<lparr>fet_queries := fet_queries b @ [i]\<rparr>"
  show ?case
  proof (cases "nbp_get_fet_asserted dev i = FTS_UNKNOWN")
    case True
    have "\<exists>b'. snapshot_wires cnt dev (i + 1) ?b1 = Inr b'
           \<and> length (pbwire_top b') = cnt \<and> length (wire_change_ptrs b') = cnt
           \<and> pbwire b' = n_wire_change b'
           \<and> n_wire_change b' = n_wire_change ?b1 + length (wires_from (i + 1) cnt dev)
           \<and> take (n_wire_change b') (pbwire_top b')
               = take (n_wire_change ?b1) (pbwire_top ?b1) @ map Some (wires_from (i + 1) cnt dev)
           \<and> take (n_wire_change b') (wire_change_ptrs b')
               = take (n_wire_change ?b1) (wire_change_ptrs ?b1)
                 @ map Some [n_wire_change ?b1 ..< n_wire_change b']
           \<and> fet_queries b' = fet_queries ?b1 @ [i + 1..int cnt - 1]"
      using Suc.prems lt by (intro Suc.hyps(1) [OF k]) auto
    then obtain b' where b': "snapshot_wires cnt dev (i + 1) ?b1 = Inr b'"
      "length (pbwire_top b') = cnt" "length (wire_change_ptrs b') = cnt"
      "pbwire b' = n_wire_change b'"
      "n_wire_change b' = n_wire_change b + length (wires_from (i + 1) cnt dev)"
      "take (n_wire_change b') (pbwire_top b')
               = take (n_wire_change b) (pbwire_top b) @ map Some (wires_from (i + 1) cnt dev)"
      "take (n_wire_change b') (wire_change_ptrs b')
               = take (n_wire_change b) (wire_change_ptrs b)
                 @ map Some [n_wire_change b ..< n_wire_change b']"
      "fet_queries b' = fet_queries b @ [i] @ [i + 1..int cnt - 1]"
      by auto
    have run: "snapshot_wires cnt dev i b = Inr b'"
      using lt True b'(1) by (subst snapshot_wires.simps) (simp add: Let_def)
    show ?thesis
      using run b'(2-8) lt True upto by (simp add: wires_from_step)
  next
    case False
    let ?n = "n_wire_change b"
    let ?e = "\<lparr>wire = i, connect = tristate_bool (nbp_get_fet_asserted dev i)\<rparr>"
    let ?b2 = "?b1\<lparr>pbwire_top := (pbwire_top ?b1)[pbwire ?b1 := Some ?e],
                  wire_change_ptrs := (wire_change_ptrs ?b1)[n_wire_change ?b1 := Some (pbwire ?b1)],
                  n_wire_change := n_wire_change ?b1 + 1,
                  pbwire := pbwire ?b1 + 1\<rparr>"
    have nlt: "?n < cnt" using Suc.prems lt by linarith
    have "\<exists>b'. snapshot_wires cnt dev (i + 1) ?b2 = Inr b'
           \<and> length (pbwire_top b') = cnt \<and> length (wire_change_ptrs b') = cnt
           \<and> pbwire b' = n_wire_change b'
           \<and> n_wire_change b' = n_wire_change ?b2 + length (wires_from (i + 1) cnt dev)
           \<and> take (n_wire_change b') (pbwire_top b')
               = take (n_wire_change ?b2) (pbwire_top ?b2) @ map Some (wires_from (i + 1) cnt dev)
           \<and> take (n_wire_change b') (wire_change_ptrs b')
               = take (n_wire_change ?b2) (wire_change_ptrs ?b2)
                 @ map Some [n_wire_change ?b2 ..< n_wire_change b']
           \<and> fet_queries b' = fet_queries ?b2 @ [i + 1..int cnt - 1]"
      using Suc.prems lt by (intro Suc.hyps(1) [OF k]) (auto simp: nat_add_distrib)
    then obtain b' where b': "snapshot_wires cnt dev (i + 1) ?b2 = Inr b'"
      "length (pbwire_top b') = cnt" "length (wire_change_ptrs b') = cnt"
      "pbwire b' = n_wire_change b'"
      "n_wire_change b' = Suc ?n + length (wires_from (i + 1) cnt dev)"
      "take (n_wire_change b') (pbwire_top b')
               = take (Suc ?n) ((pbwire_top b)[?n := Some ?e]) @ map Some (wires_from (i + 1) cnt dev)"
      "take (n_wire_change b') (wire_change_ptrs b')
               = take (Suc ?n) ((wire_change_ptrs b)[?n := Some ?n])
                 @ map Some [Suc ?n ..< n_wire_change b']"
      "fet_queries b' = fet_queries b @ [i] @ [i + 1..int cnt - 1]"
      using Suc.prems(5) by auto
    have run: "snapshot_wires cnt dev i b = Inr b'"
      using lt False b'(1) nlt Suc.prems
      by (subst snapshot_wires.simps) (simp add: Let_def)
    have nle: "?n < n_wire_change b'" using b'(5) by simp
    have ups: "[?n ..< n_wire_change b'] = ?n # [Suc ?n ..< n_wire_change b']"
      using nle by (simp add: upt_conv_Cons)
    show ?thesis
      using run b'(2-8) lt False upto nlt Suc.prems(3,4) ups
      by (simp add: wires_from_step take_Suc_update)
  qed
qed


lemma those_map_Some: "those (map Some xs) = Some xs"
  by (induction xs) simp_all

lemma map_nth_upt_take: "n \<le> length xs \<Longrightarrow> map ((!) xs) [0..<n] = take n xs"
  by (simp add: list_eq_iff_nth_eq)

lemma snapshot_wires_malloc:
  "\<exists>b'. snapshot_wires cnt dev 0 (malloc_wire_bufs cnt) = Inr b'
     \<and> length (pbwire_top b') = cnt \<and> length (wire_change_ptrs b') = cnt
     \<and> pbwire b' = n_wire_change b'
     \<and> n_wire_change b' = length (wires_from 0 cnt dev)
     \<and> n_wire_change b' \<le> cnt
     \<and> take (n_wire_change b') (pbwire_top b') = map Some (wires_from 0 cnt dev)
     \<and> take (n_wire_change b') (wire_change_ptrs b') = map Some [0 ..< n_wire_change b']
     \<and> fet_queries b' = [0..int cnt - 1]"
proof -
  have len: "length (wires_from 0 cnt dev) \<le> cnt"
    using length_wires_from [of 0 cnt dev] by simp
  have "\<exists>b'. snapshot_wires cnt dev 0 (malloc_wire_bufs cnt) = Inr b'
     \<and> length (pbwire_top b') = cnt \<and> length (wire_change_ptrs b') = cnt
     \<and> pbwire b' = n_wire_change b'
     \<and> n_wire_change b' = length (wires_from 0 cnt dev)
     \<and> take (n_wire_change b') (pbwire_top b') = map Some (wires_from 0 cnt dev)
     \<and> take (n_wire_change b') (wire_change_ptrs b') = map Some [0 ..< n_wire_change b']
     \<and> fet_queries b' = [0..int cnt - 1]"
    using snapshot_wires_run [of 0 cnt "malloc_wire_bufs cnt" dev]
    by (simp add: malloc_wire_bufs_def)
  then show ?thesis using len by metis
qed

lemma wire_change_list_ok:
  assumes "length (pbwire_top b) = cnt" "length (wire_change_ptrs b) = cnt"
    and "n_wire_change b \<le> cnt"
    and "take (n_wire_change b) (pbwire_top b) = map Some ws"
    and "take (n_wire_change b) (wire_change_ptrs b) = map Some [0 ..< n_wire_change b]"
  shows "wire_change_list b = Some ws"
proof -
  have "map (deref_wire b) (map Some [0 ..< n_wire_change b])
          = map ((!) (pbwire_top b)) [0 ..< n_wire_change b]"
    using assms(1,3) by (simp add: deref_wire_def)
  also have "\<dots> = take (n_wire_change b) (pbwire_top b)"
    using assms(1,3) by (simp add: map_nth_upt_take)
  finally show ?thesis
    using assms by (simp add: wire_change_list_def those_map_Some)
qed

lemma got_new_subscriber_subscribe:
  assumes "data \<noteq> []" "data ! 0 \<noteq> 0"
  shows "got_new_subscriber cnt (Some data) w = Inr (emit (Zmq_publish (snapshot_event cnt (nbp w))) w)"
proof -
  obtain b' where b': "snapshot_wires cnt (nbp w) 0 (malloc_wire_bufs cnt) = Inr b'"
    "length (pbwire_top b') = cnt" "length (wire_change_ptrs b') = cnt"
    "n_wire_change b' \<le> cnt"
    "take (n_wire_change b') (pbwire_top b') = map Some (wires_from 0 cnt (nbp w))"
    "take (n_wire_change b') (wire_change_ptrs b') = map Some [0 ..< n_wire_change b']"
    using snapshot_wires_malloc [of cnt "nbp w"] by blast
  have "wire_change_list b' = Some (wires_from 0 cnt (nbp w))"
    using b'(2-6) by (rule wire_change_list_ok)
  then show ?thesis
    using assms b'(1) by (simp add: got_new_subscriber_def snapshot_event_def Let_def)
qed

lemma dec_small: "n < 10 \<Longrightarrow> dec n = [digit_char n]"
  by (subst dec.simps) simp

lemma dec_big: "\<not> n < 10 \<Longrightarrow> dec n = dec (n div 10) @ [digit_char (n mod 10)]"
  by (subst dec.simps) simp

lemma replicate_numeral: "replicate (numeral k) c = c # replicate (pred_numeral k) c"
  by (simp add: numeral_eq_Suc)

lemma weather_line_example:
  "weather_line 2150 455 = ''Temperature  21.50 C (  70.700 F)    Humidity: 45.5%''"
  by (simp add: weather_line_def pad_def dec_small dec_big digit_char_def replicate_numeral)

lemma bit6_clear: "(flags AND 0x40 = 0) = (\<not> bit flags 6)" for flags :: uint8_t
proof -
  have "(0x40 :: uint8_t) = 2 ^ 6" by simp
  then show ?thesis by (simp only: and_exp_eq_0_iff_not_bit)
qed

text \<open>
  Claim C8, as amended. \<open>msg_weather\<close> leaves the device session and the deadline as they
  are (it does not itself store the reading), logs one line and publishes exactly one
  event, whose only sub-record is weather, with the temperature and the humidity it was
  given; for (2150, 455) the event carries weather 2150 and 455.
\<close>

theorem msg_weather_event:
  "nbp (msg_weather t h w) = nbp w
   \<and> ts_next_periodic_req (msg_weather t h w) = ts_next_periodic_req w
   \<and> effects (msg_weather t h w) = effects w @
        [Applog (weather_line t h),
         Zmq_publish \<lparr>weather = Some \<lparr>pb_has_temperature = True, pb_temperature = unat t,
                                      pb_has_humidity = True, pb_humidity = unat h\<rparr>,
                      battery = None, wire_change = []\<rparr>]
   \<and> effects (msg_weather 2150 455 w) = effects w @
        [Applog ''Temperature  21.50 C (  70.700 F)    Humidity: 45.5%'',
         Zmq_publish \<lparr>weather = Some \<lparr>pb_has_temperature = True, pb_temperature = 2150,
                                      pb_has_humidity = True, pb_humidity = 455\<rparr>,
                      battery = None, wire_change = []\<rparr>]"
  by (simp add: msg_weather_def emit_def PB_EVENT__INIT_def PB_WEATHER__INIT_def
      weather_line_example)

text \<open>
  Claim C8 as stated says that the handler updates DeviceState. On a device session with
  no data, after \<open>msg_weather\<close> with (2150, 455) the session still has no weather reading.
\<close>

theorem msg_weather_state_counterexample:
  "\<not> has_weather (nbp (msg_weather 2150 455 no_data_world))
   \<and> temperature (nbp (msg_weather 2150 455 no_data_world)) \<noteq> 2150
   \<and> humidity (nbp (msg_weather 2150 455 no_data_world)) \<noteq> 455"
  by (simp add: msg_weather_def emit_def no_data_world_def no_data_device_def)

text \<open>
  Claim C7 as stated says that the handler updates DeviceState. On a device session with
  no data, after \<open>msg_power_status\<close> with flags 0x40 and battery voltage 3900 the session
  still has no power reading.
\<close>

theorem msg_power_status_state_counterexample:
  "\<not> has_powerinfo (nbp (msg_power_status 0x40 0 0 3900 no_data_world))
   \<and> vb_mV (nbp (msg_power_status 0x40 0 0 3900 no_data_world)) \<noteq> 3900
   \<and> power_flags (nbp (msg_power_status 0x40 0 0 3900 no_data_world)) \<noteq> 0x40"
  by (simp add: msg_power_status_def emit_def no_data_world_def no_data_device_def)

lemma weather_snapshot_event:
  "weather (snapshot_event cnt dev) =
     (if has_weather dev
      then Some \<lparr>pb_has_temperature = True, pb_temperature = unat (temperature dev),
                 pb_has_humidity = True, pb_humidity = unat (humidity dev)\<rparr>
      else None)"
  by (simp add: snapshot_event_def snapshot_battery_def snapshot_weather_def
      PB_EVENT__INIT_def PB_WEATHER__INIT_def)

lemma battery_snapshot_event:
  "battery (snapshot_event cnt dev) =
     (if has_powerinfo dev
      then Some \<lparr>pb_has_charging = True, pb_charging = (\<not> bit (power_flags dev) 6),
                 pb_has_voltage = True, pb_voltage = unat (vb_mV dev)\<rparr>
      else None)"
  by (simp add: snapshot_event_def snapshot_battery_def snapshot_weather_def
      PB_EVENT__INIT_def PB_BATTERY__INIT_def bit6_clear)

lemma wire_change_snapshot_event: "wire_change (snapshot_event cnt dev) = wires_from 0 cnt dev"
  by (simp add: snapshot_event_def)

text \<open>
  Claim C7, as amended. \<open>msg_power_status\<close> leaves the device session as it is, logs one
  line and publishes exactly one event, whose only sub-record is battery, charging
  exactly when bit 6 of the flags is clear, with the battery voltage it was given; and
  the event published for a subscribe notification has a battery sub-record exactly when
  the session has a power reading, derived from the stored flags and voltage by the
  same rule.
\<close>

theorem msg_power_status_event:
  "nbp (msg_power_status flags vi_cV vo_mV vb w) = nbp w
   \<and> effects (msg_power_status flags vi_cV vo_mV vb w) = effects w @
        [Applog (power_line flags vi_cV vo_mV vb),
         Zmq_publish \<lparr>weather = None,
                      battery = Some \<lparr>pb_has_charging = True, pb_charging = (\<not> bit flags 6),
                                      pb_has_voltage = True, pb_voltage = unat vb\<rparr>,
                      wire_change = []\<rparr>]
   \<and> (data \<noteq> [] \<and> data ! 0 \<noteq> 0 \<longrightarrow>
        (\<exists>ev. got_new_subscriber cnt (Some data) w = Inr (emit (Zmq_publish ev) w)
           \<and> battery ev =
               (if has_powerinfo (nbp w)
                then Some \<lparr>pb_has_charging = True,
                           pb_charging = (\<not> bit (power_flags (nbp w)) 6),
                           pb_has_voltage = True, pb_voltage = unat (vb_mV (nbp w))\<rparr>
                else None)))"
proof (intro conjI impI)
  show "nbp (msg_power_status flags vi_cV vo_mV vb w) = nbp w"
    by (simp add: msg_power_status_def emit_def)
  show "effects (msg_power_status flags vi_cV vo_mV vb w) = effects w @
        [Applog (power_line flags vi_cV vo_mV vb),
         Zmq_publish \<lparr>weather = None,
                      battery = Some \<lparr>pb_has_charging = True, pb_charging = (\<not> bit flags 6),
                                      pb_has_voltage = True, pb_voltage = unat vb\<rparr>,
                      wire_change = []\<rparr>]"
    by (simp add: msg_power_status_def emit_def PB_EVENT__INIT_def PB_BATTERY__INIT_def
        bit6_clear)
next
  assume "data \<noteq> [] \<and> data ! 0 \<noteq> 0"
  then have "got_new_subscriber cnt (Some data) w
               = Inr (emit (Zmq_publish (snapshot_event cnt (nbp w))) w)"
    by (simp add: got_new_subscriber_subscribe)
  then show "\<exists>ev. got_new_subscriber cnt (Some data) w = Inr (emit (Zmq_publish ev) w)
           \<and> battery ev =
               (if has_powerinfo (nbp w)
                then Some \<lparr>pb_has_charging = True,
                           pb_charging = (\<not> bit (power_flags (nbp w)) 6),
                           pb_has_voltage = True, pb_voltage = unat (vb_mV (nbp w))\<rparr>
                else None)"
    using battery_snapshot_event [of cnt "nbp w"] by blast
qed

text \<open>
  The snapshot of a session whose stored flags are 0x40 and stored voltage is 3900.
\<close>

theorem msg_power_status_event_witness:
  "([1 :: uint8_t] \<noteq> [] \<and> [1 :: uint8_t] ! 0 \<noteq> 0)
   \<and> (\<exists>ev. got_new_subscriber 3 (Some [1]) powered_world
               = Inr (emit (Zmq_publish ev) powered_world)
          \<and> battery ev = Some \<lparr>pb_has_charging = True, pb_charging = False,
                                pb_has_voltage = True, pb_voltage = 3900\<rparr>)"
  using msg_power_status_event [of "0x40" 0 0 3900 powered_world "[1]" 3]
  by (simp add: powered_world_def no_data_world_def no_data_device_def)

lemma map_wire_wires_from:
  "map wire (wires_from i cnt dev)
     = filter (\<lambda>j. nbp_get_fet_asserted dev j \<noteq> FTS_UNKNOWN) [i..int cnt - 1]"
  by (simp add: wires_from_def comp_def)

lemma connect_wires_from:
  "e \<in> set (wires_from i cnt dev)
     \<Longrightarrow> connect e = (nbp_get_fet_asserted dev (wire e) = FTS_TRUE)"
  by (auto simp: wires_from_def tristate_bool_def)

lemma length_filter_eq_distinct:
  "distinct xs \<Longrightarrow> length (filter (\<lambda>x. x = j) xs) = (if j \<in> set xs then 1 else 0)"
  by (induction xs) auto

lemma count_wires_from:
  "length (filter (\<lambda>e. wire e = j) (wires_from i cnt dev))
     = (if i \<le> j \<and> j < int cnt \<and> nbp_get_fet_asserted dev j \<noteq> FTS_UNKNOWN then 1 else 0)"
proof -
  have "length (filter (\<lambda>e. wire e = j) (wires_from i cnt dev))
          = length (filter (\<lambda>x. x = j) (map wire (wires_from i cnt dev)))"
    by (simp add: filter_map comp_def)
  also have "\<dots> = (if j \<in> set (map wire (wires_from i cnt dev)) then 1 else 0)"
    by (rule length_filter_eq_distinct) (simp add: map_wire_wires_from)
  finally show ?thesis by (auto simp: map_wire_wires_from)
qed

text \<open>
  Claim C2. For a subscribe notification (a message whose first byte is present and
  nonzero), the published event's wire-change list has the wire ids, among 0 to
  \<open>PB_HVACWIRES___COUNT - 1\<close>, whose asserted state is not unknown, in ascending order,
  each exactly once and with the asserted state as its connect flag; a wire whose state
  is unknown has no entry.
\<close>

theorem snapshot_wire_changes:
  assumes "data \<noteq> []" and "data ! 0 \<noteq> 0"
  shows "\<exists>ev. got_new_subscriber cnt (Some data) w = Inr (emit (Zmq_publish ev) w)
     \<and> map wire (wire_change ev)
         = filter (\<lambda>j. nbp_get_fet_asserted (nbp w) j \<noteq> FTS_UNKNOWN) [0..int cnt - 1]
     \<and> (\<forall>e \<in> set (wire_change ev).
           connect e = (nbp_get_fet_asserted (nbp w) (wire e) = FTS_TRUE))
     \<and> sorted_wrt (<) (map wire (wire_change ev))
     \<and> (\<forall>j. length (filter (\<lambda>e. wire e = j) (wire_change ev))
              = (if 0 \<le> j \<and> j < int cnt \<and> nbp_get_fet_asserted (nbp w) j \<noteq> FTS_UNKNOWN
                 then 1 else 0))"
proof (intro exI conjI)
  show "got_new_subscriber cnt (Some data) w
          = Inr (emit (Zmq_publish (snapshot_event cnt (nbp w))) w)"
    using assms by (rule got_new_subscriber_subscribe)
  show "map wire (wire_change (snapshot_event cnt (nbp w)))
         = filter (\<lambda>j. nbp_get_fet_asserted (nbp w) j \<noteq> FTS_UNKNOWN) [0..int cnt - 1]"
    by (simp add: wire_change_snapshot_event map_wire_wires_from)
  show "\<forall>e \<in> set (wire_change (snapshot_event cnt (nbp w))).
           connect e = (nbp_get_fet_asserted (nbp w) (wire e) = FTS_TRUE)"
    by (simp add: wire_change_snapshot_event connect_wires_from)
  show "sorted_wrt (<) (map wire (wire_change (snapshot_event cnt (nbp w))))"
    by (simp add: wire_change_snapshot_event map_wire_wires_from sorted_wrt_filter)
  show "\<forall>j. length (filter (\<lambda>e. wire e = j) (wire_change (snapshot_event cnt (nbp w))))
              = (if 0 \<le> j \<and> j < int cnt \<and> nbp_get_fet_asserted (nbp w) j \<noteq> FTS_UNKNOWN
                 then 1 else 0)"
    by (simp only: wire_change_snapshot_event count_wires_from) simp
qed

lemma upto_0_2: "[0..(2::int)] = [0, 1, 2]"
  by (simp add: upto_rec1)

text \<open>
  With wire 0 asserted, wire 2 not asserted and wire 1 unknown, the list is (0, true),
  (2, false).
\<close>

theorem snapshot_wire_changes_witness:
  "([1 :: uint8_t] \<noteq> [] \<and> [1 :: uint8_t] ! 0 \<noteq> 0)
   \<and> (\<exists>ev. got_new_subscriber 3 (Some [1]) (no_data_world\<lparr>nbp := two_wire_device\<rparr>)
               = Inr (emit (Zmq_publish ev) (no_data_world\<lparr>nbp := two_wire_device\<rparr>))
          \<and> map wire (wire_change ev) = [0, 2]
          \<and> map connect (wire_change ev) = [True, False])"
proof -
  let ?w = "no_data_world\<lparr>nbp := two_wire_device\<rparr>"
  have q: "[1 :: uint8_t] \<noteq> []" "[1 :: uint8_t] ! 0 \<noteq> 0" by simp_all
  from snapshot_wire_changes [OF q, of 3 ?w]
  obtain ev where ev: "got_new_subscriber 3 (Some [1]) ?w = Inr (emit (Zmq_publish ev) ?w)"
    "map wire (wire_change ev) = [0, 2]"
    "\<forall>e \<in> set (wire_change ev). connect e = (wire e = 0 \<or> (wire e \<noteq> 2 \<and> False))"
    by (auto simp: two_wire_device_def no_data_device_def nbp_get_fet_asserted_def upto_0_2)
  from ev(2) obtain a b where ab: "wire_change ev = [a, b]" "wire a = 0" "wire b = 2"
    by (auto simp: map_eq_Cons_conv)
  with ev(3) have c: "map connect (wire_change ev) = [True, False]" by simp
  show ?thesis
    by (intro conjI exI [of _ ev]) (use q ev(1,2) c in simp_all)
qed

lemma snapshot_wires_stop: "\<not> i < int cnt \<Longrightarrow> snapshot_wires cnt dev i b = Inr b"
  by (subst snapshot_wires.simps) simp

lemma snapshot_wires_skip:
  "i < int cnt \<Longrightarrow> nbp_get_fet_asserted dev i = FTS_UNKNOWN \<Longrightarrow>
   snapshot_wires cnt dev i b
     = snapshot_wires cnt dev (i + 1) (b\<lparr>fet_queries := fet_queries b @ [i]\<rparr>)"
  by (subst snapshot_wires.simps) simp

lemma snapshot_wires_put:
  "i < int cnt \<Longrightarrow> nbp_get_fet_asserted dev i \<noteq> FTS_UNKNOWN \<Longrightarrow>
   pbwire b < length (pbwire_top b) \<Longrightarrow> n_wire_change b < length (wire_change_ptrs b) \<Longrightarrow>
   snapshot_wires cnt dev i b
     = snapshot_wires cnt dev (i + 1)
         (b\<lparr>fet_queries := fet_queries b @ [i],
            pbwire_top := (pbwire_top b)[pbwire b :=
               Some \<lparr>wire = i, connect = tristate_bool (nbp_get_fet_asserted dev i)\<rparr>],
            wire_change_ptrs := (wire_change_ptrs b)[n_wire_change b := Some (pbwire b)],
            n_wire_change := n_wire_change b + 1,
            pbwire := pbwire b + 1\<rparr>)"
  by (subst snapshot_wires.simps) (simp add: Let_def)

lemma snapshot_wires_overflow:
  "i < int cnt \<Longrightarrow> nbp_get_fet_asserted dev i \<noteq> FTS_UNKNOWN \<Longrightarrow>
   \<not> (pbwire b < length (pbwire_top b) \<and> n_wire_change b < length (wire_change_ptrs b)) \<Longrightarrow>
   snapshot_wires cnt dev i b = Inl Undefined_behaviour"
  by (subst snapshot_wires.simps) (auto simp: Let_def)

lemmas snapshot_wires_steps =
  snapshot_wires_stop snapshot_wires_skip snapshot_wires_put snapshot_wires_overflow

lemma snapshot_wires_two_wire:
  "snapshot_wires 3 two_wire_device 0 (malloc_wire_bufs 3) =
     Inr \<lparr>pbwire_top = [Some \<lparr>wire = 0, connect = True\<rparr>, Some \<lparr>wire = 2, connect = False\<rparr>, None],
          pbwire = 2, wire_change_ptrs = [Some 0, Some 1, None], n_wire_change = 2,
          fet_queries = [0, 1, 2]\<rparr>"
  by (simp add: snapshot_wires_steps malloc_wire_bufs_def two_wire_device_def
      no_data_device_def nbp_get_fet_asserted_def tristate_bool_def replicate_numeral)

text \<open>
  The bounds check of the model is not idle: with arrays of one element and two known
  wires the loop writes past the end.
\<close>

lemma snapshot_wires_small_buffer:
  "snapshot_wires 3 two_wire_device 0 (malloc_wire_bufs 1) = Inl Undefined_behaviour"
  by (simp add: snapshot_wires_steps malloc_wire_bufs_def two_wire_device_def
      no_data_device_def nbp_get_fet_asserted_def tristate_bool_def)

text \<open>
  Claim C10. The wire loop of \<open>got_new_subscriber\<close>, run on the two arrays allocated for
  \<open>PB_HVACWIRES___COUNT\<close> elements, never writes outside them (a write outside would end
  the run with \<open>Undefined_behaviour\<close>): it ends with at most \<open>PB_HVACWIRES___COUNT\<close>
  entries written and the cursor within the entry array, it queries only wire ids from 0 to
  \<open>PB_HVACWIRES___COUNT - 1\<close>, and every entry the serialiser reads has a wire id in that
  range.
\<close>

theorem snapshot_wires_in_bounds:
  "\<exists>b. snapshot_wires cnt dev 0 (malloc_wire_bufs cnt) = Inr b
     \<and> length (pbwire_top b) = cnt \<and> length (wire_change_ptrs b) = cnt
     \<and> n_wire_change b \<le> cnt \<and> pbwire b \<le> cnt
     \<and> (\<forall>j \<in> set (fet_queries b). 0 \<le> j \<and> j < int cnt)
     \<and> (\<exists>ws. wire_change_list b = Some ws \<and> length ws = n_wire_change b
           \<and> (\<forall>e \<in> set ws. 0 \<le> wire e \<and> wire e < int cnt))"
proof -
  obtain b where b: "snapshot_wires cnt dev 0 (malloc_wire_bufs cnt) = Inr b"
    "length (pbwire_top b) = cnt" "length (wire_change_ptrs b) = cnt"
    "pbwire b = n_wire_change b"
    "n_wire_change b = length (wires_from 0 cnt dev)"
    "n_wire_change b \<le> cnt"
    "take (n_wire_change b) (pbwire_top b) = map Some (wires_from 0 cnt dev)"
    "take (n_wire_change b) (wire_change_ptrs b) = map Some [0 ..< n_wire_change b]"
    "fet_queries b = [0..int cnt - 1]"
    using snapshot_wires_malloc [of cnt dev] by blast
  have ws: "wire_change_list b = Some (wires_from 0 cnt dev)"
    using b(2,3,6,7,8) by (rule wire_change_list_ok)
  have rng: "\<forall>e \<in> set (wires_from 0 cnt dev). 0 \<le> wire e \<and> wire e < int cnt"
    by (auto simp: wires_from_def)
  have q: "\<forall>j \<in> set (fet_queries b). 0 \<le> j \<and> j < int cnt"
    using b(9) by auto
  have p: "pbwire b \<le> cnt" using b(4,6) by simp
  have l: "length (wires_from 0 cnt dev) = n_wire_change b" using b(5) by simp
  from ws l rng
  have "\<exists>ws. wire_change_list b = Some ws \<and> length ws = n_wire_change b
           \<and> (\<forall>e \<in> set ws. 0 \<le> wire e \<and> wire e < int cnt)"
    by blast
  with b(1,2,3,6) p q show ?thesis by blast
qed

text \<open>
  With three wires, of which two are known: the queries are 0, 1, 2 and two entries are
  written.
\<close>

theorem snapshot_wires_in_bounds_witness:
  "\<exists>b. snapshot_wires 3 two_wire_device 0 (malloc_wire_bufs 3) = Inr b
     \<and> fet_queries b = [0, 1, 2]
     \<and> n_wire_change b = 2 \<and> pbwire b = 2
     \<and> (\<exists>ws. wire_change_list b = Some ws \<and> map wire ws = [0, 2])"
  using snapshot_wires_in_bounds [of 3 two_wire_device]
  by (simp add: snapshot_wires_two_wire wire_change_list_def deref_wire_def)

text \<open>
  Claim C6. A subscription-notification message of zero length, or whose first byte is
  zero, leaves the state as it is and so publishes nothing; the one-byte message 0x01,
  when the device session has no weather reading, no power reading and every wire
  unknown, publishes exactly one event, with no weather, no battery and an empty
  wire-change list.
\<close>

theorem got_new_subscriber_boundary:
  "got_new_subscriber cnt (Some []) w = Inr w
   \<and> got_new_subscriber cnt (Some (0 # rest)) w = Inr w
   \<and> (\<not> has_weather (nbp w) \<and> \<not> has_powerinfo (nbp w)
        \<and> (\<forall>i. 0 \<le> i \<and> i < int cnt \<longrightarrow> nbp_get_fet_asserted (nbp w) i = FTS_UNKNOWN)
      \<longrightarrow> got_new_subscriber cnt (Some [1]) w
            = Inr (emit (Zmq_publish \<lparr>weather = None, battery = None, wire_change = []\<rparr>) w)
          \<and> effects (emit (Zmq_publish \<lparr>weather = None, battery = None, wire_change = []\<rparr>) w)
            = effects w @ [Zmq_publish \<lparr>weather = None, battery = None, wire_change = []\<rparr>])"
proof (intro conjI impI)
  show "got_new_subscriber cnt (Some []) w = Inr w"
    by (simp add: got_new_subscriber_def)
  show "got_new_subscriber cnt (Some (0 # rest)) w = Inr w"
    by (simp add: got_new_subscriber_def)
next
  assume a: "\<not> has_weather (nbp w) \<and> \<not> has_powerinfo (nbp w)
        \<and> (\<forall>i. 0 \<le> i \<and> i < int cnt \<longrightarrow> nbp_get_fet_asserted (nbp w) i = FTS_UNKNOWN)"
  then have "filter (\<lambda>j. nbp_get_fet_asserted (nbp w) j \<noteq> FTS_UNKNOWN) [0..int cnt - 1] = []"
    by (auto simp: filter_empty_conv)
  then have "wires_from 0 cnt (nbp w) = []"
    by (simp add: wires_from_def)
  then have "snapshot_event cnt (nbp w) = \<lparr>weather = None, battery = None, wire_change = []\<rparr>"
    using a by (simp add: snapshot_event_def snapshot_battery_def snapshot_weather_def
        PB_EVENT__INIT_def)
  then show "got_new_subscriber cnt (Some [1]) w
            = Inr (emit (Zmq_publish \<lparr>weather = None, battery = None, wire_change = []\<rparr>) w)"
    using got_new_subscriber_subscribe [of "[1]" cnt w] by simp
  show "effects (emit (Zmq_publish \<lparr>weather = None, battery = None, wire_change = []\<rparr>) w)
            = effects w @ [Zmq_publish \<lparr>weather = None, battery = None, wire_change = []\<rparr>]"
    by (simp add: emit_def)
qed

text \<open>
  The three messages on a device session that has no data yet.
\<close>

theorem got_new_subscriber_boundary_witness:
  "(\<not> has_weather (nbp no_data_world) \<and> \<not> has_powerinfo (nbp no_data_world)
      \<and> nbp_get_fet_asserted (nbp no_data_world) 0 = FTS_UNKNOWN
      \<and> nbp_get_fet_asserted (nbp no_data_world) 1 = FTS_UNKNOWN
      \<and> nbp_get_fet_asserted (nbp no_data_world) 2 = FTS_UNKNOWN)
   \<and> got_new_subscriber 3 (Some [1]) no_data_world
       = Inr \<lparr>nbp = no_data_device, ts_next_periodic_req = \<lparr>tv_sec = 0, tv_nsec = 0\<rparr>,
              effects = [Zmq_publish \<lparr>weather = None, battery = None, wire_change = []\<rparr>]\<rparr>
   \<and> got_new_subscriber 3 (Some []) no_data_world = Inr no_data_world
   \<and> got_new_subscriber 3 (Some [0]) no_data_world = Inr no_data_world"
  using got_new_subscriber_boundary [of 3 no_data_world "[]"]
  by (simp add: no_data_world_def no_data_device_def nbp_get_fet_asserted_def emit_def)

lemma set_wires_Cons:
  "set_wires cf (x # xs) w =
     (fst (cf w (wire x) (connect x)) # fst (set_wires cf xs (snd (cf w (wire x) (connect x)))),
      snd (set_wires cf xs (snd (cf w (wire x) (connect x)))))"
  by (simp split: prod.splits)

lemma set_wires_fst_length: "length (fst (set_wires cf req w)) = length req"
  by (induction req arbitrary: w) (simp_all only: set_wires.simps(1) set_wires_Cons fst_conv list.size)

lemma set_wires_append:
  "set_wires cf (xs @ ys) w =
     (fst (set_wires cf xs w) @ fst (set_wires cf ys (snd (set_wires cf xs w))),
      snd (set_wires cf ys (snd (set_wires cf xs w))))"
  by (induction xs arbitrary: w)
    (simp_all only: set_wires.simps(1) set_wires_Cons fst_conv snd_conv append.simps prod.collapse)

lemma set_wires_nth:
  "i < length req \<Longrightarrow>
   fst (set_wires cf req w) ! i
     = fst (cf (snd (set_wires cf (take i req) w)) (wire (req ! i)) (connect (req ! i)))"
proof -
  assume i: "i < length req"
  then have req: "req = take i req @ req ! i # drop (Suc i) req"
    by (simp add: id_take_nth_drop)
  have l: "length (fst (set_wires cf (take i req) w)) = i"
    using i by (simp add: set_wires_fst_length)
  have "fst (set_wires cf req w) ! i
          = fst (set_wires cf (take i req @ req ! i # drop (Suc i) req) w) ! i"
    using req by simp
  also have "\<dots> = fst (set_wires cf (req ! i # drop (Suc i) req)
                         (snd (set_wires cf (take i req) w))) ! 0"
    by (simp add: set_wires_append nth_append l)
  also have "\<dots> = fst (cf (snd (set_wires cf (take i req) w)) (wire (req ! i)) (connect (req ! i)))"
    by (simp only: set_wires_Cons fst_conv nth_Cons_0)
  finally show ?thesis .
qed

lemma handle_req_loop_run:
  assumes "i \<le> length req" and "length reply = length req"
  shows "handle_req_loop cf req i reply w =
           Inr (take i reply @ map Some (fst (set_wires cf (drop i req) w)),
                snd (set_wires cf (drop i req) w))"
  using assms
proof (induction "length req - i" arbitrary: i reply w)
  case 0
  then show ?case by (subst handle_req_loop.simps) simp
next
  case (Suc k)
  then have lt: "i < length req" by simp
  obtain r w' where c: "cf w (wire (req ! i)) (connect (req ! i)) = (r, w')"
    by (cases "cf w (wire (req ! i)) (connect (req ! i))")
  have k: "k = length req - (i + 1)" using Suc.hyps(2) by simp
  have ih: "handle_req_loop cf req (i + 1) (reply[i := Some r]) w' =
           Inr (take (i + 1) (reply[i := Some r])
                  @ map Some (fst (set_wires cf (drop (i + 1) req) w')),
                snd (set_wires cf (drop (i + 1) req) w'))"
    using lt Suc.prems by (intro Suc.hyps(1) [OF k]) simp_all
  have d: "drop i req = req ! i # drop (i + 1) req"
    using lt by (simp add: Cons_nth_drop_Suc)
  have t: "take (i + 1) (reply[i := Some r]) = take i reply @ [Some r]"
    using lt Suc.prems(2) by (simp add: take_Suc_update)
  have "handle_req_loop cf req i reply w
          = handle_req_loop cf req (i + 1) (reply[i := Some r]) w'"
    using lt Suc.prems(2) c by (subst handle_req_loop.simps) simp
  also note ih
  finally show ?case
    by (simp only: d t set_wires_Cons c fst_conv snd_conv) simp
qed

lemma handle_req_eq:
  "handle_req cf (Some req) w
     = Inr (emit (Zmq_reply (fst (set_wires cf req w))) (snd (set_wires cf req w)))"
  by (simp add: handle_req_def handle_req_loop_run those_map_Some)

text \<open>
  Claim C1. For a request that decodes, \<open>handle_req\<close> sends one reply; its list of
  booleans has the length of the request's item list; the boolean at index \<open>i\<close> is the
  result of the set-wire operation on the \<open>i\<close>-th (wire, connect) pair, called in the state
  left by the calls for the items before it, whatever their results; the calls and
  their results are those of going through the items in request order; and the empty
  request yields the empty reply.
\<close>

theorem handle_req_reply:
  "\<exists>bs w'. handle_req cf (Some req) w = Inr (emit (Zmq_reply bs) w')
     \<and> (bs, w') = set_wires cf req w
     \<and> length bs = length req
     \<and> (\<forall>i < length req.
           bs ! i = fst (cf (snd (set_wires cf (take i req) w))
                          (wire (req ! i)) (connect (req ! i))))
     \<and> effects (emit (Zmq_reply bs) w') = effects w' @ [Zmq_reply bs]
     \<and> handle_req cf (Some []) w = Inr (emit (Zmq_reply []) w)"
proof (intro exI conjI)
  show "handle_req cf (Some req) w
     = Inr (emit (Zmq_reply (fst (set_wires cf req w))) (snd (set_wires cf req w)))"
    by (rule handle_req_eq)
  show "(fst (set_wires cf req w), snd (set_wires cf req w)) = set_wires cf req w"
    by simp
  show "length (fst (set_wires cf req w)) = length req"
    by (rule set_wires_fst_length)
  show "\<forall>i < length req.
           fst (set_wires cf req w) ! i = fst (cf (snd (set_wires cf (take i req) w))
                          (wire (req ! i)) (connect (req ! i)))"
    by (simp add: set_wires_nth)
  show "effects (emit (Zmq_reply (fst (set_wires cf req w))) (snd (set_wires cf req w)))
          = effects (snd (set_wires cf req w)) @ [Zmq_reply (fst (set_wires cf req w))]"
    by (simp add: emit_def)
  show "handle_req cf (Some []) w = Inr (emit (Zmq_reply []) w)"
    by (simp add: handle_req_eq)
qed

lemma set_wires_sample:
  "set_wires fails_on_5 sample_request no_data_world =
     ([True, False, True],
      my_nbp_control_fet_cb 1 True
        (my_nbp_control_fet_cb 5 False (my_nbp_control_fet_cb 2 True no_data_world)))"
  by (simp add: sample_request_def fails_on_5_def)

lemma sample_request_effects:
  "effects (emit (Zmq_reply [True, False, True])
              (my_nbp_control_fet_cb 1 True
                 (my_nbp_control_fet_cb 5 False
                    (my_nbp_control_fet_cb 2 True no_data_world))))
     = [Applog ''Setting FET 2 to 1'',
        Zmq_publish \<lparr>weather = None, battery = None,
                     wire_change = [\<lparr>wire = 2, connect = True\<rparr>]\<rparr>,
        Applog ''Setting FET 5 to 0'',
        Zmq_publish \<lparr>weather = None, battery = None,
                     wire_change = [\<lparr>wire = 5, connect = False\<rparr>]\<rparr>,
        Applog ''Setting FET 1 to 1'',
        Zmq_publish \<lparr>weather = None, battery = None,
                     wire_change = [\<lparr>wire = 1, connect = True\<rparr>]\<rparr>,
        Zmq_reply [True, False, True]]"
  by (simp add: my_nbp_control_fet_cb_def emit_def no_data_world_def PB_EVENT__INIT_def
      dec_small digit_char_def)

text \<open>
  The request (2, true), (5, false), (1, true) with a set-wire operation that fails on
  wire 5: the three calls happen in order and the reply is true, false, true.
\<close>

theorem handle_req_reply_witness:
  "1 < length sample_request
   \<and> (\<exists>w'. handle_req fails_on_5 (Some sample_request) no_data_world = Inr w'
          \<and> effects w'
              = [Applog ''Setting FET 2 to 1'',
                 Zmq_publish \<lparr>weather = None, battery = None,
                              wire_change = [\<lparr>wire = 2, connect = True\<rparr>]\<rparr>,
                 Applog ''Setting FET 5 to 0'',
                 Zmq_publish \<lparr>weather = None, battery = None,
                              wire_change = [\<lparr>wire = 5, connect = False\<rparr>]\<rparr>,
                 Applog ''Setting FET 1 to 1'',
                 Zmq_publish \<lparr>weather = None, battery = None,
                              wire_change = [\<lparr>wire = 1, connect = True\<rparr>]\<rparr>,
                 Zmq_reply [True, False, True]])"
proof -
  from handle_req_reply [of fails_on_5 sample_request no_data_world]
  obtain bs w' where r: "handle_req fails_on_5 (Some sample_request) no_data_world
                           = Inr (emit (Zmq_reply bs) w')"
    "(bs, w') = set_wires fails_on_5 sample_request no_data_world"
    by blast
  from r(2) have "bs = [True, False, True]"
    "w' = my_nbp_control_fet_cb 1 True
        (my_nbp_control_fet_cb 5 False (my_nbp_control_fet_cb 2 True no_data_world))"
    by (simp_all add: set_wires_sample)
  with r(1) have h: "handle_req fails_on_5 (Some sample_request) no_data_world
       = Inr (emit (Zmq_reply [True, False, True])
                (my_nbp_control_fet_cb 1 True
                   (my_nbp_control_fet_cb 5 False
                      (my_nbp_control_fet_cb 2 True no_data_world))))"
    by simp
  have l: "1 < length sample_request"
    by (simp add: sample_request_def)
  from h l sample_request_effects show ?thesis by simp
qed

lemma nbp_msg_weather: "nbp (msg_weather t h w) = nbp w"
  by (simp add: msg_weather_def emit_def)

lemma nbp_deliver_weather:
  "nbp (nbp_deliver_weather th w)
     = (nbp w)\<lparr>has_weather := True, temperature := fst th, humidity := snd th\<rparr>"
  by (simp add: nbp_deliver_weather_def nbp_msg_weather nbp_store_weather_def)

lemma fold_deliver_weather_last:
  "cs \<noteq> [] \<Longrightarrow>
   has_weather (nbp (fold nbp_deliver_weather cs w))
   \<and> temperature (nbp (fold nbp_deliver_weather cs w)) = fst (last cs)
   \<and> humidity (nbp (fold nbp_deliver_weather cs w)) = snd (last cs)"
  by (induction cs rule: rev_induct) (simp_all add: nbp_deliver_weather)

text \<open>
  Claim C3. After any sequence of weather messages delivered by the device session, the
  event published for a subscribe notification has a weather sub-record exactly when
  the device session has a weather reading; the sub-record carries the stored reading,
  which after a non-empty sequence is the temperature and humidity of the last
  message.
\<close>

theorem snapshot_weather_latest:
  assumes "data \<noteq> []" and "data ! 0 \<noteq> 0"
  shows "\<exists>ev. got_new_subscriber cnt (Some data) (fold nbp_deliver_weather cs w)
               = Inr (emit (Zmq_publish ev) (fold nbp_deliver_weather cs w))
     \<and> (weather ev \<noteq> None) = has_weather (nbp (fold nbp_deliver_weather cs w))
     \<and> (has_weather (nbp (fold nbp_deliver_weather cs w)) \<longrightarrow>
          weather ev = Some
            \<lparr>pb_has_temperature = True,
             pb_temperature = unat (temperature (nbp (fold nbp_deliver_weather cs w))),
             pb_has_humidity = True,
             pb_humidity = unat (humidity (nbp (fold nbp_deliver_weather cs w)))\<rparr>)
     \<and> (cs \<noteq> [] \<longrightarrow>
          weather ev = Some
            \<lparr>pb_has_temperature = True, pb_temperature = unat (fst (last cs)),
             pb_has_humidity = True, pb_humidity = unat (snd (last cs))\<rparr>)
     \<and> (cs = [] \<longrightarrow> (weather ev \<noteq> None) = has_weather (nbp w))"
proof -
  let ?w = "fold nbp_deliver_weather cs w"
  let ?ev = "snapshot_event cnt (nbp ?w)"
  have run: "got_new_subscriber cnt (Some data) ?w = Inr (emit (Zmq_publish ?ev) ?w)"
    using assms by (rule got_new_subscriber_subscribe)
  have a: "(weather ?ev \<noteq> None) = has_weather (nbp ?w)"
    by (simp add: weather_snapshot_event)
  have b: "has_weather (nbp ?w) \<longrightarrow>
          weather ?ev = Some
            \<lparr>pb_has_temperature = True, pb_temperature = unat (temperature (nbp ?w)),
             pb_has_humidity = True, pb_humidity = unat (humidity (nbp ?w))\<rparr>"
    by (simp add: weather_snapshot_event)
  have c: "cs \<noteq> [] \<longrightarrow>
          weather ?ev = Some
            \<lparr>pb_has_temperature = True, pb_temperature = unat (fst (last cs)),
             pb_has_humidity = True, pb_humidity = unat (snd (last cs))\<rparr>"
    using fold_deliver_weather_last [of cs w] by (simp add: weather_snapshot_event)
  have d: "cs = [] \<longrightarrow> (weather ?ev \<noteq> None) = has_weather (nbp w)"
    by (simp add: weather_snapshot_event)
  from run a b c d show ?thesis by blast
qed

text \<open>
  After the readings (2000, 400) and (2150, 455) the snapshot reports 2150 and 455.
\<close>

theorem snapshot_weather_latest_witness:
  "([1 :: uint8_t] \<noteq> [] \<and> [1 :: uint8_t] ! 0 \<noteq> 0)
   \<and> (\<exists>ev. got_new_subscriber 3 (Some [1])
                (fold nbp_deliver_weather [(2000, 400), (2150, 455)] no_data_world)
               = Inr (emit (Zmq_publish ev)
                        (fold nbp_deliver_weather [(2000, 400), (2150, 455)] no_data_world))
          \<and> weather ev = Some \<lparr>pb_has_temperature = True, pb_temperature = 2150,
                                pb_has_humidity = True, pb_humidity = 455\<rparr>)"
proof -
  have q: "[1 :: uint8_t] \<noteq> []" "[1 :: uint8_t] ! 0 \<noteq> 0" by simp_all
  from snapshot_weather_latest [OF q, of 3 "[(2000, 400), (2150, 455)]" no_data_world]
  obtain ev where ev: "got_new_subscriber 3 (Some [1])
                (fold nbp_deliver_weather [(2000, 400), (2150, 455)] no_data_world)
               = Inr (emit (Zmq_publish ev)
                        (fold nbp_deliver_weather [(2000, 400), (2150, 455)] no_data_world))"
     "[(2000, 400), (2150, 455) :: uint16_t \<times> uint16_t] \<noteq> [] \<longrightarrow>
      weather ev = Some
            \<lparr>pb_has_temperature = True,
             pb_temperature = unat (fst (last [(2000, 400), (2150, 455) :: uint16_t \<times> uint16_t])),
             pb_has_humidity = True,
             pb_humidity = unat (snd (last [(2000, 400), (2150, 455) :: uint16_t \<times> uint16_t]))\<rparr>"
    by blast
  from ev(2) have "weather ev = Some \<lparr>pb_has_temperature = True, pb_temperature = 2150,
                                pb_has_humidity = True, pb_humidity = 455\<rparr>"
    by simp
  with ev(1) q show ?thesis by blast
qed

lemma timespec_ns_add_ms: "timespec_ns (timespec_add_ms t ms) = timespec_ns t + ms * 1000000"
  by (simp add: timespec_add_ms_def Let_def timespec_ns_def [of "\<lparr>tv_sec = _, tv_nsec = _\<rparr>"])

lemma request_periodic_simps:
  "nbp (request_periodic now w) = nbp w"
  "effects (request_periodic now w) = effects w @ [Nbp_send NBPM_REQ_PERIODIC []]"
  "ts_next_periodic_req (request_periodic now w) = timespec_add_ms now 30000"
  by (simp_all add: request_periodic_def emit_def periodic_req_interval_def)

lemma loop_head_eq:
  "loop_head ext now w =
     ((if fst (timespec_passed ext (ts_next_periodic_req w) now (timespec_clear ext))
       then request_periodic now w else w),
      snd (timespec_passed ext (ts_next_periodic_req w) now (timespec_clear ext)))"
  by (simp add: loop_head_def Let_def case_prod_unfold)

lemma reset_complete_ok:
  "reset_complete True now w =
     Inr (emit (Zmq_bind ''events'')
            (request_periodic now
               (emit (Applog ''Backplate reset complete'')
                  (w\<lparr>nbp := (nbp w)\<lparr>cb_msg_fet_presence := None\<rparr>\<rparr>))))"
  by (simp add: reset_complete_def Let_def)

lemma nbp_deliver_fet_presences_idle:
  "cb_msg_fet_presence (nbp w) = None \<Longrightarrow> nbp_deliver_fet_presences ds w = Inr w"
  by (induction ds) (auto simp: nbp_deliver_fet_presence_def)

lemma reset_complete_slot:
  "reset_complete bind_ok now w = Inr w' \<Longrightarrow> cb_msg_fet_presence (nbp w') = None"
  by (auto simp: reset_complete_def Let_def emit_def request_periodic_def split: if_splits)

text \<open>
  Claim C4. \<open>main\<close> registers \<open>reset_complete\<close> and enters its loop with the publisher
  unbound. The first reset-complete delivery clears the callback slot, then requests
  periodic data (the request is sent and the deadline set to 30 seconds after now), and
  only then binds the publisher to "events"; when the bind fails the process aborts.
  After it the slot is empty, so every further delivery leaves the state as it is: a
  sequence of deliveries does what its first delivery does.
\<close>

theorem reset_complete_fires_once:
  "(cb_msg_fet_presence (nbp w) = Some Reset_complete \<longrightarrow>
      nbp_deliver_fet_presence True now w =
        Inr (emit (Zmq_bind ''events'')
               (request_periodic now
                  (emit (Applog ''Backplate reset complete'')
                     (w\<lparr>nbp := (nbp w)\<lparr>cb_msg_fet_presence := None\<rparr>\<rparr>))))
      \<and> (\<exists>w'. nbp_deliver_fet_presence True now w = Inr w'
            \<and> cb_msg_fet_presence (nbp w') = None
            \<and> effects w' = effects w @
                 [Applog ''Backplate reset complete'', Nbp_send NBPM_REQ_PERIODIC [],
                  Zmq_bind ''events'']
            \<and> ts_next_periodic_req w' = timespec_add_ms now 30000)
      \<and> nbp_deliver_fet_presence False now w = Inl Abort
      \<and> nbp_deliver_fet_presences ((bind_ok, now) # ds) w
          = nbp_deliver_fet_presence bind_ok now w)
   \<and> (cb_msg_fet_presence (nbp w) = None \<longrightarrow>
        nbp_deliver_fet_presence bind_ok now w = Inr w
        \<and> nbp_deliver_fet_presences ds w = Inr w)
   \<and> (main_init ext (Some dev) True True = Inr w \<longrightarrow>
        cb_msg_fet_presence (nbp w) = Some Reset_complete
        \<and> Zmq_bind ''events'' \<notin> set (effects w))"
proof (intro conjI impI)
  assume r: "cb_msg_fet_presence (nbp w) = Some Reset_complete"
  then have d: "nbp_deliver_fet_presence b now w = reset_complete b now w" for b
    by (simp add: nbp_deliver_fet_presence_def)
  show "nbp_deliver_fet_presence True now w =
        Inr (emit (Zmq_bind ''events'')
               (request_periodic now
                  (emit (Applog ''Backplate reset complete'')
                     (w\<lparr>nbp := (nbp w)\<lparr>cb_msg_fet_presence := None\<rparr>\<rparr>))))"
    by (simp add: d reset_complete_ok)
  show "\<exists>w'. nbp_deliver_fet_presence True now w = Inr w'
            \<and> cb_msg_fet_presence (nbp w') = None
            \<and> effects w' = effects w @
                 [Applog ''Backplate reset complete'', Nbp_send NBPM_REQ_PERIODIC [],
                  Zmq_bind ''events'']
            \<and> ts_next_periodic_req w' = timespec_add_ms now 30000"
    by (simp add: d reset_complete_ok emit_def request_periodic_def periodic_req_interval_def)
  show "nbp_deliver_fet_presence False now w = Inl Abort"
    by (simp add: d reset_complete_def Let_def)
  show "nbp_deliver_fet_presences ((bind_ok, now) # ds) w
          = nbp_deliver_fet_presence bind_ok now w"
  proof (cases "reset_complete bind_ok now w")
    case (Inl e)
    then show ?thesis by (simp add: d)
  next
    case (Inr w')
    then have "cb_msg_fet_presence (nbp w') = None" by (rule reset_complete_slot)
    then have "nbp_deliver_fet_presences ds w' = Inr w'"
      by (rule nbp_deliver_fet_presences_idle)
    with Inr show ?thesis by (simp add: d)
  qed
next
  assume n: "cb_msg_fet_presence (nbp w) = None"
  then show "nbp_deliver_fet_presence bind_ok now w = Inr w"
    by (simp add: nbp_deliver_fet_presence_def)
  from n show "nbp_deliver_fet_presences ds w = Inr w"
    by (rule nbp_deliver_fet_presences_idle)
next
  assume m: "main_init ext (Some dev) True True = Inr w"
  then show "cb_msg_fet_presence (nbp w) = Some Reset_complete"
    by (auto simp: main_init_def)
  from m show "Zmq_bind ''events'' \<notin> set (effects w)"
    by (auto simp: main_init_def)
qed

text \<open>
  Two deliveries after the start of \<open>main\<close>: one log line, one request, one bind.
\<close>

theorem reset_complete_fires_once_witness:
  "main_init sample_externals (Some no_data_device) True True = Inr started_world
   \<and> cb_msg_fet_presence (nbp started_world) = Some Reset_complete
   \<and> nbp_deliver_fet_presences
        [(True, \<lparr>tv_sec = 100, tv_nsec = 0\<rparr>), (True, \<lparr>tv_sec = 200, tv_nsec = 0\<rparr>)] started_world
      = Inr \<lparr>nbp = no_data_device,
             ts_next_periodic_req = \<lparr>tv_sec = 130, tv_nsec = 0\<rparr>,
             effects = [Nbp_send NBPM_RESET [], Zmq_bind ''control'',
                        Applog ''Backplate reset complete'', Nbp_send NBPM_REQ_PERIODIC [],
                        Zmq_bind ''events'']\<rparr>
   \<and> cb_msg_fet_presence (nbp no_data_world) = None
   \<and> nbp_deliver_fet_presence True \<lparr>tv_sec = 200, tv_nsec = 0\<rparr> no_data_world = Inr no_data_world"
proof -
  have i: "main_init sample_externals (Some no_data_device) True True = Inr started_world"
    by (simp add: main_init_def started_world_def sample_externals_def)
  have r: "cb_msg_fet_presence (nbp started_world) = Some Reset_complete"
    by (simp add: started_world_def)
  have n: "cb_msg_fet_presence (nbp no_data_world) = None"
    by (simp add: no_data_world_def no_data_device_def)
  note t1 = reset_complete_fires_once [where w = started_world
      and now = "\<lparr>tv_sec = 100, tv_nsec = 0\<rparr>" and bind_ok = True
      and ds = "[(True, \<lparr>tv_sec = 200, tv_nsec = 0\<rparr>)]"]
  note t2 = reset_complete_fires_once [where w = no_data_world
      and now = "\<lparr>tv_sec = 200, tv_nsec = 0\<rparr>" and bind_ok = True and ds = "[]"]
  note c1 = t1 [THEN conjunct1, THEN mp, OF r]
  note first = c1 [THEN conjunct1]
  note rest = c1 [THEN conjunct2, THEN conjunct2, THEN conjunct2]
  have v: "emit (Zmq_bind ''events'')
             (request_periodic \<lparr>tv_sec = 100, tv_nsec = 0\<rparr>
                (emit (Applog ''Backplate reset complete'')
                   (started_world\<lparr>nbp := (nbp started_world)\<lparr>cb_msg_fet_presence := None\<rparr>\<rparr>)))
           = \<lparr>nbp = no_data_device,
              ts_next_periodic_req = \<lparr>tv_sec = 130, tv_nsec = 0\<rparr>,
              effects = [Nbp_send NBPM_RESET [], Zmq_bind ''control'',
                         Applog ''Backplate reset complete'', Nbp_send NBPM_REQ_PERIODIC [],
                         Zmq_bind ''events'']\<rparr>"
    by (simp add: started_world_def no_data_device_def emit_def request_periodic_def
        periodic_req_interval_def timespec_add_ms_def timespec_ns_def Let_def)
  have a: "nbp_deliver_fet_presences
        [(True, \<lparr>tv_sec = 100, tv_nsec = 0\<rparr>), (True, \<lparr>tv_sec = 200, tv_nsec = 0\<rparr>)] started_world
      = Inr \<lparr>nbp = no_data_device,
             ts_next_periodic_req = \<lparr>tv_sec = 130, tv_nsec = 0\<rparr>,
             effects = [Nbp_send NBPM_RESET [], Zmq_bind ''control'',
                        Applog ''Backplate reset complete'', Nbp_send NBPM_REQ_PERIODIC [],
                        Zmq_bind ''events'']\<rparr>"
    by (simp only: rest first v)
  note b = t2 [THEN conjunct2, THEN conjunct1, THEN mp, OF n, THEN conjunct1]
  from i r a n b show ?thesis by simp
qed

text \<open>
  Claim C5, as amended. In an iteration whose deadline has passed at \<open>now\<close> (as \<open>timespec_passed\<close>
  answers), the part of the iteration before \<open>zmq_poll\<close> sends exactly one
  periodic-refresh message and sets the deadline to \<open>now\<close> plus 30 seconds, whatever the
  deadline was; when the deadline has not passed, that part leaves the state as it is:
  no refresh message is sent before the poll. The poll comes after it in every
  iteration, and what a handler run after the poll sends is not the refresh check's.
\<close>

theorem loop_periodic_refresh:
  "(fst (timespec_passed ext (ts_next_periodic_req w) now (timespec_clear ext)) \<longrightarrow>
      effects (fst (loop_head ext now w)) = effects w @ [Nbp_send NBPM_REQ_PERIODIC []]
      \<and> ts_next_periodic_req (fst (loop_head ext now w)) = timespec_add_ms now 30000
      \<and> timespec_ns (ts_next_periodic_req (fst (loop_head ext now w)))
          = timespec_ns now + 30 * 1000000000
      \<and> nbp (fst (loop_head ext now w)) = nbp w)
   \<and> (\<not> fst (timespec_passed ext (ts_next_periodic_req w) now (timespec_clear ext)) \<longrightarrow>
        fst (loop_head ext now w) = w)
   \<and> (\<exists>w2. loop_iter ext inp w
              = (if poll_rc inp \<le> 0 then Inr w2 else loop_dispatch ext inp w2)
         \<and> nbp w2 = nbp (fst (loop_head ext (clock_now inp) w))
         \<and> ts_next_periodic_req w2
             = ts_next_periodic_req (fst (loop_head ext (clock_now inp) w))
         \<and> effects w2 = effects (fst (loop_head ext (clock_now inp) w)) @
             [Zmq_poll (timespec_to_timeout_ms ext (clock_now inp)
                          (snd (loop_head ext (clock_now inp) w)))])"
proof (intro conjI impI)
  assume p: "fst (timespec_passed ext (ts_next_periodic_req w) now (timespec_clear ext))"
  then have h: "fst (loop_head ext now w) = request_periodic now w"
    by (simp add: loop_head_eq)
  show "effects (fst (loop_head ext now w)) = effects w @ [Nbp_send NBPM_REQ_PERIODIC []]"
    by (simp add: h request_periodic_simps)
  show "ts_next_periodic_req (fst (loop_head ext now w)) = timespec_add_ms now 30000"
    by (simp add: h request_periodic_simps)
  show "timespec_ns (ts_next_periodic_req (fst (loop_head ext now w)))
          = timespec_ns now + 30 * 1000000000"
    by (simp add: h request_periodic_simps timespec_ns_add_ms)
  show "nbp (fst (loop_head ext now w)) = nbp w"
    by (simp add: h request_periodic_simps)
next
  assume "\<not> fst (timespec_passed ext (ts_next_periodic_req w) now (timespec_clear ext))"
  then show "fst (loop_head ext now w) = w"
    by (simp add: loop_head_eq)
next
  let ?h = "loop_head ext (clock_now inp) w"
  let ?w2 = "emit (Zmq_poll (timespec_to_timeout_ms ext (clock_now inp) (snd ?h))) (fst ?h)"
  have "loop_iter ext inp w = (if poll_rc inp \<le> 0 then Inr ?w2 else loop_dispatch ext inp ?w2)"
    by (simp add: loop_iter_def Let_def case_prod_unfold)
  moreover have "nbp ?w2 = nbp (fst ?h)" "ts_next_periodic_req ?w2 = ts_next_periodic_req (fst ?h)"
    "effects ?w2 = effects (fst ?h) @
       [Zmq_poll (timespec_to_timeout_ms ext (clock_now inp) (snd ?h))]"
    by (simp_all add: emit_def)
  ultimately show "\<exists>w2. loop_iter ext inp w
              = (if poll_rc inp \<le> 0 then Inr w2 else loop_dispatch ext inp w2)
         \<and> nbp w2 = nbp (fst ?h)
         \<and> ts_next_periodic_req w2 = ts_next_periodic_req (fst ?h)
         \<and> effects w2 = effects (fst ?h) @
             [Zmq_poll (timespec_to_timeout_ms ext (clock_now inp) (snd ?h))]"
    by blast
qed

text \<open>
  At 130 seconds with the deadline at 130 seconds the refresh is sent and the deadline
  becomes 160 seconds; at 100 seconds nothing is sent.
\<close>

theorem loop_periodic_refresh_witness:
  "fst (timespec_passed sample_externals (ts_next_periodic_req refreshed_world)
          \<lparr>tv_sec = 130, tv_nsec = 0\<rparr> (timespec_clear sample_externals))
   \<and> effects (fst (loop_head sample_externals \<lparr>tv_sec = 130, tv_nsec = 0\<rparr> refreshed_world))
       = [Nbp_send NBPM_REQ_PERIODIC []]
   \<and> ts_next_periodic_req (fst (loop_head sample_externals \<lparr>tv_sec = 130, tv_nsec = 0\<rparr> refreshed_world))
       = \<lparr>tv_sec = 160, tv_nsec = 0\<rparr>
   \<and> \<not> fst (timespec_passed sample_externals (ts_next_periodic_req refreshed_world)
          \<lparr>tv_sec = 100, tv_nsec = 0\<rparr> (timespec_clear sample_externals))
   \<and> fst (loop_head sample_externals \<lparr>tv_sec = 100, tv_nsec = 0\<rparr> refreshed_world)
       = refreshed_world"
proof -
  let ?now = "\<lparr>tv_sec = 130, tv_nsec = 0\<rparr>"
  let ?early = "\<lparr>tv_sec = 100, tv_nsec = 0\<rparr>"
  have p: "fst (timespec_passed sample_externals (ts_next_periodic_req refreshed_world)
          ?now (timespec_clear sample_externals))"
    by (simp add: sample_externals_def refreshed_world_def timespec_ns_def)
  have n: "\<not> fst (timespec_passed sample_externals (ts_next_periodic_req refreshed_world)
          ?early (timespec_clear sample_externals))"
    by (simp add: sample_externals_def refreshed_world_def timespec_ns_def)
  note t1 = loop_periodic_refresh [where ext = sample_externals and w = refreshed_world
      and now = ?now, THEN conjunct1, THEN mp, OF p]
  note t2 = loop_periodic_refresh [where ext = sample_externals and w = refreshed_world
      and now = ?early, THEN conjunct2, THEN conjunct1, THEN mp, OF n]
  have a: "effects (fst (loop_head sample_externals ?now refreshed_world))
       = [Nbp_send NBPM_REQ_PERIODIC []]"
    using t1 [THEN conjunct1] by (simp add: refreshed_world_def no_data_world_def)
  have b: "ts_next_periodic_req (fst (loop_head sample_externals ?now refreshed_world))
       = \<lparr>tv_sec = 160, tv_nsec = 0\<rparr>"
    using t1 [THEN conjunct2, THEN conjunct1]
    by (simp add: timespec_add_ms_def timespec_ns_def Let_def)
  from p a b n t2 show ?thesis by simp
qed

text \<open>
  Claim C5 as stated says that an iteration whose deadline has not passed sends no
  refresh message. In the iteration after the start of \<open>main\<close> in which the device link is
  ready and the reset-complete message arrives, the deadline (still cleared) has not
  passed, and \<open>reset_complete\<close>, run by \<open>nbp_read\<close> after the poll, sends one.
\<close>

theorem loop_refresh_counterexample:
  "\<not> fst (timespec_passed sample_externals (ts_next_periodic_req started_world)
            (clock_now reset_input) (timespec_clear sample_externals))
   \<and> loop_iter sample_externals reset_input started_world =
       Inr \<lparr>nbp = no_data_device,
             ts_next_periodic_req = \<lparr>tv_sec = 130, tv_nsec = 0\<rparr>,
             effects = effects started_world @
               [Zmq_poll 0, Applog ''Backplate reset complete'',
                Nbp_send NBPM_REQ_PERIODIC [], Zmq_bind ''events'']\<rparr>"
  by (simp add: loop_iter_def loop_head_eq loop_dispatch_def reset_input_def
      sample_externals_def started_world_def no_data_device_def timespec_ns_def
      nbp_deliver_fet_presence_def reset_complete_def request_periodic_def emit_def
      periodic_req_interval_def timespec_add_ms_def Let_def)

lemma loop_iter_idle:
  "poll_rc inp \<le> 0 \<Longrightarrow>
   loop_iter ext inp w =
     Inr (emit (Zmq_poll (timespec_to_timeout_ms ext (clock_now inp)
                            (snd (timespec_passed ext (ts_next_periodic_req w) (clock_now inp)
                                    (timespec_clear ext)))))
            (if fst (timespec_passed ext (ts_next_periodic_req w) (clock_now inp)
                       (timespec_clear ext))
             then request_periodic (clock_now inp) w else w))"
  by (simp add: loop_iter_def loop_head_eq Let_def)

lemma main_loop_idle:
  "\<forall>x \<in> set inps. poll_rc x \<le> 0 \<Longrightarrow> \<exists>w'. main_loop ext inps w = Inr w' \<and> nbp w' = nbp w"
proof (induction inps arbitrary: w)
  case Nil
  then show ?case by simp
next
  case (Cons inp inps)
  let ?p = "timespec_passed ext (ts_next_periodic_req w) (clock_now inp) (timespec_clear ext)"
  let ?w1 = "emit (Zmq_poll (timespec_to_timeout_ms ext (clock_now inp) (snd ?p)))
               (if fst ?p then request_periodic (clock_now inp) w else w)"
  have rc: "poll_rc inp \<le> 0" using Cons.prems by simp
  have step: "loop_iter ext inp w = Inr ?w1" using rc by (rule loop_iter_idle)
  have keep: "nbp ?w1 = nbp w" by (simp add: emit_def request_periodic_simps)
  have "\<forall>x \<in> set inps. poll_rc x \<le> 0" using Cons.prems by simp
  then obtain w' where w': "main_loop ext inps ?w1 = Inr w'" "nbp w' = nbp ?w1"
    using Cons.IH [of ?w1] by blast
  have "main_loop ext (inp # inps) w = Inr w'"
    by (simp only: main_loop.simps step sum.case w'(1))
  with w'(2) keep show ?case by simp
qed

text \<open>
  Claim C9. When \<open>zmq_poll\<close> returns zero or a negative count, the iteration does not
  abort; it changes nothing but what the refresh check and the poll themselves did,
  whatever the readiness bits, the waiting messages and the handlers are. The loop
  goes on from that state: run for this iteration alone it ends in that state, the
  next iteration is run from it (with its own refresh check and poll), and a run of
  any number of such iterations does not abort.
\<close>

theorem poll_nothing_ready:
  assumes "poll_rc inp \<le> 0"
  shows "\<exists>w'. loop_iter ext inp w = Inr w'
     \<and> nbp w' = nbp w
     \<and> effects w' = effects w
         @ (if fst (timespec_passed ext (ts_next_periodic_req w) (clock_now inp)
                      (timespec_clear ext))
            then [Nbp_send NBPM_REQ_PERIODIC []] else [])
         @ [Zmq_poll (timespec_to_timeout_ms ext (clock_now inp)
                        (snd (timespec_passed ext (ts_next_periodic_req w) (clock_now inp)
                                (timespec_clear ext))))]
     \<and> loop_iter (ext\<lparr>nbp_control_fet := cf, PB_HVACWIRES_COUNT := cnt\<rparr>)
          (inp\<lparr>revents_nbp := r0, revents_ctl := r1, revents_pub := r2,
               nbp_read := rd, ctl_recv := creq, pub_recv := pmsg\<rparr>) w = Inr w'
     \<and> main_loop ext (inp # inps) w = main_loop ext inps w'
     \<and> main_loop ext [inp] w = Inr w'
     \<and> main_loop ext [inp, inp2] w = loop_iter ext inp2 w'
     \<and> ((\<forall>x \<in> set inps. poll_rc x \<le> 0) \<longrightarrow>
          (\<exists>w''. main_loop ext (inp # inps) w = Inr w'' \<and> nbp w'' = nbp w))"
proof -
  let ?p = "timespec_passed ext (ts_next_periodic_req w) (clock_now inp) (timespec_clear ext)"
  let ?w1 = "if fst ?p then request_periodic (clock_now inp) w else w"
  let ?w' = "emit (Zmq_poll (timespec_to_timeout_ms ext (clock_now inp) (snd ?p))) ?w1"
  have a: "loop_iter ext inp w = Inr ?w'"
    using assms by (rule loop_iter_idle)
  have b: "nbp ?w' = nbp w"
    by (simp add: emit_def request_periodic_simps)
  have c: "effects ?w' = effects w
         @ (if fst ?p then [Nbp_send NBPM_REQ_PERIODIC []] else [])
         @ [Zmq_poll (timespec_to_timeout_ms ext (clock_now inp) (snd ?p))]"
    by (simp add: emit_def request_periodic_simps)
  have d: "loop_iter (ext\<lparr>nbp_control_fet := cf, PB_HVACWIRES_COUNT := cnt\<rparr>)
          (inp\<lparr>revents_nbp := r0, revents_ctl := r1, revents_pub := r2,
               nbp_read := rd, ctl_recv := creq, pub_recv := pmsg\<rparr>) w = Inr ?w'"
    using assms by (simp add: loop_iter_def loop_head_eq Let_def)
  have e: "main_loop ext (inp # inps) w = main_loop ext inps ?w'"
    by (simp add: a)
  have f: "main_loop ext [inp] w = Inr ?w'"
    by (simp add: a)
  have g: "main_loop ext [inp, inp2] w = loop_iter ext inp2 ?w'"
    by (simp add: a split: sum.splits)
  have h: "(\<forall>x \<in> set inps. poll_rc x \<le> 0) \<longrightarrow>
          (\<exists>w''. main_loop ext (inp # inps) w = Inr w'' \<and> nbp w'' = nbp w)"
  proof
    assume "\<forall>x \<in> set inps. poll_rc x \<le> 0"
    with assms have "\<forall>x \<in> set (inp # inps). poll_rc x \<le> 0" by simp
    then show "\<exists>w''. main_loop ext (inp # inps) w = Inr w'' \<and> nbp w'' = nbp w"
      by (rule main_loop_idle)
  qed
  from a b c d e f g h show ?thesis by blast
qed

text \<open>
  A poll that returns 0 while every readiness bit is set and every handler would fail:
  one such iteration, and two in a row.
\<close>

theorem poll_nothing_ready_witness:
  "poll_rc sample_input \<le> 0
   \<and> (\<exists>w'. loop_iter sample_externals sample_input refreshed_world = Inr w'
          \<and> nbp w' = no_data_device
          \<and> effects w' = [Zmq_poll 0]
          \<and> main_loop sample_externals [sample_input, sample_input] refreshed_world
              = main_loop sample_externals [sample_input] w'
          \<and> main_loop sample_externals [sample_input] refreshed_world = Inr w')
   \<and> (\<exists>w''. main_loop sample_externals [sample_input, sample_input] refreshed_world = Inr w''
          \<and> nbp w'' = no_data_device)"
proof -
  have r0: "poll_rc sample_input \<le> 0" by (simp add: sample_input_def)
  note t = poll_nothing_ready [OF r0, where ext = sample_externals and w = refreshed_world
      and inps = "[sample_input]"]
  from t obtain w' where w': "loop_iter sample_externals sample_input refreshed_world = Inr w'"
    "nbp w' = nbp refreshed_world"
    "effects w' = effects refreshed_world
         @ (if fst (timespec_passed sample_externals (ts_next_periodic_req refreshed_world)
                      (clock_now sample_input) (timespec_clear sample_externals))
            then [Nbp_send NBPM_REQ_PERIODIC []] else [])
         @ [Zmq_poll (timespec_to_timeout_ms sample_externals (clock_now sample_input)
                        (snd (timespec_passed sample_externals
                                (ts_next_periodic_req refreshed_world)
                                (clock_now sample_input) (timespec_clear sample_externals))))]"
    "main_loop sample_externals [sample_input, sample_input] refreshed_world
       = main_loop sample_externals [sample_input] w'"
    "main_loop sample_externals [sample_input] refreshed_world = Inr w'"
    "(\<forall>x \<in> set [sample_input]. poll_rc x \<le> 0) \<longrightarrow>
          (\<exists>w''. main_loop sample_externals [sample_input, sample_input] refreshed_world = Inr w''
             \<and> nbp w'' = nbp refreshed_world)"
    by blast
  have n: "nbp w' = no_data_device"
    using w'(2) by (simp add: refreshed_world_def no_data_world_def)
  have e: "effects w' = [Zmq_poll 0]"
    using w'(3)
    by (simp add: refreshed_world_def no_data_world_def sample_externals_def sample_input_def
        timespec_ns_def)
  have "\<forall>x \<in> set [sample_input]. poll_rc x \<le> 0" using r0 by simp
  with w'(6) obtain w'' where w'':
    "main_loop sample_externals [sample_input, sample_input] refreshed_world = Inr w''"
    "nbp w'' = nbp refreshed_world"
    by blast
  have n2: "nbp w'' = no_data_device"
    using w''(2) by (simp add: refreshed_world_def no_data_world_def)
  have first: "\<exists>w'. loop_iter sample_externals sample_input refreshed_world = Inr w'
          \<and> nbp w' = no_data_device
          \<and> effects w' = [Zmq_poll 0]
          \<and> main_loop sample_externals [sample_input, sample_input] refreshed_world
              = main_loop sample_externals [sample_input] w'
          \<and> main_loop sample_externals [sample_input] refreshed_world = Inr w'"
    using w'(1,4,5) n e by blast
  have second: "\<exists>w''. main_loop sample_externals [sample_input, sample_input] refreshed_world
                        = Inr w'' \<and> nbp w'' = no_data_device"
    using w''(1) n2 by blast
  from r0 first second show ?thesis by blast
qed

text \<open>
  The same iteration with a positive poll result does run the handlers.
\<close>

lemma loop_iter_ready_dispatches:
  "loop_iter sample_externals (sample_input\<lparr>poll_rc := 1\<rparr>) refreshed_world = Inl Abort"
  by (simp add: loop_iter_def loop_head_eq loop_dispatch_def sample_input_def)

end
